theory Spec2Isabelle
  imports Complex_Main "HOL-Library.Sublist"
begin

section \<open>Strings\<close>

text \<open>
  Python strings are modelled as \<open>string\<close> restricted to ASCII: \<open>str.upper\<close> and
  \<open>str.lower\<close> move the 26 letters and leave every other character alone, and
  \<open>str.strip\<close> removes the ASCII characters for which \<open>str.isspace\<close> holds.
\<close>

definition ascii_lowercase :: string where
  "ascii_lowercase = ''abcdefghijklmnopqrstuvwxyz''"

definition ascii_uppercase :: string where
  "ascii_uppercase = ''ABCDEFGHIJKLMNOPQRSTUVWXYZ''"

definition upper_char :: "char \<Rightarrow> char" where
  "upper_char c =
     (case map_of (zip ascii_lowercase ascii_uppercase) c of Some d \<Rightarrow> d | None \<Rightarrow> c)"

definition lower_char :: "char \<Rightarrow> char" where
  "lower_char c =
     (case map_of (zip ascii_uppercase ascii_lowercase) c of Some d \<Rightarrow> d | None \<Rightarrow> c)"

definition upper :: "string \<Rightarrow> string" where
  "upper s = map upper_char s"

definition lower :: "string \<Rightarrow> string" where
  "lower s = map lower_char s"

definition is_space :: "char \<Rightarrow> bool" where
  "is_space c = (c \<in> set [CHR 0x09, CHR 0x0A, CHR 0x0B, CHR 0x0C, CHR 0x0D,
                            CHR 0x1C, CHR 0x1D, CHR 0x1E, CHR 0x1F, CHR 0x20])"

definition strip :: "string \<Rightarrow> string" where
  "strip s = rev (dropWhile is_space (rev (dropWhile is_space s)))"

text \<open>\<open>contains k s\<close> is Python's \<open>k in s\<close> on strings.\<close>

fun contains :: "string \<Rightarrow> string \<Rightarrow> bool" where
  "contains k [] = (k = [])"
| "contains k (c # cs) = (prefix k (c # cs) \<or> contains k cs)"

text \<open>\<open>endswith s k\<close> is Python's \<open>s.endswith(k)\<close>.\<close>

definition endswith :: "string \<Rightarrow> string \<Rightarrow> bool" where
  "endswith s k = prefix (rev k) (rev s)"

text \<open>Python's \<open>any(keyword in s for keyword in keywords)\<close>.\<close>

definition any_keyword_in :: "string list \<Rightarrow> string \<Rightarrow> bool" where
  "any_keyword_in keywords s = list_ex (\<lambda>keyword. contains keyword s) keywords"

text \<open>Decimal rendering of integers, as \<open>str\<close> gives it.\<close>

definition digit_char :: "nat \<Rightarrow> char" where
  "digit_char d = ''0123456789'' ! (d mod 10)"

fun show_nat :: "nat \<Rightarrow> string" where
  "show_nat n = (if n < 10 then [digit_char n] else show_nat (n div 10) @ [digit_char n])"

declare show_nat.simps [simp del]

definition show_int :: "int \<Rightarrow> string" where
  "show_int i = (if i < 0 then CHR ''-'' # show_nat (nat (- i)) else show_nat (nat i))"

section \<open>Cells, tables and the library\<close>

text \<open>
  A cell of a data frame: a missing value (NaN, None, NaT), an integer, a float (finite;
  its value as a real number), a text, or a timestamp (nanoseconds).
\<close>

datatype cell = Null | IntV int | FloatV real | StrV string | TimeV int

text \<open>
  A data frame is its column names, in order, and its rows, each a list of cells in
  column order. The row index is not modelled.
\<close>

record table =
  cols :: "string list"
  rows :: "cell list list"

definition wf_table :: "table \<Rightarrow> bool" where
  "wf_table t = (distinct (cols t) \<and> list_all (\<lambda>r. length r = length (cols t)) (rows t))"

text \<open>
  What the code takes from pandas and is not defined in the repository is a parameter:
  the text of a float that is not a whole number below \<open>10^16\<close> and of a timestamp
  (\<open>str_other\<close>), the number \<open>pd.to_numeric(errors='coerce')\<close> reads from a text or a
  timestamp, \<open>None\<close> when it coerces to NaN (\<open>numeric_other\<close>), \<open>pd.to_datetime\<close> on a
  column, \<open>None\<close> when it raises, otherwise the conversion it applies to each cell
  (\<open>to_datetime\<close>), and the dtype pandas keeps for a column (\<open>dtype_of\<close>).
\<close>

record pandas =
  str_other :: "cell \<Rightarrow> string"
  numeric_other :: "cell \<Rightarrow> real option"
  to_datetime :: "cell list \<Rightarrow> (cell \<Rightarrow> cell) option"
  dtype_of :: "cell list \<Rightarrow> string"

text \<open>\<open>str(v)\<close>, which is what \<open>astype(str)\<close> applies to each cell.\<close>

fun py_str :: "pandas \<Rightarrow> cell \<Rightarrow> string" where
  "py_str P Null = ''nan''"
| "py_str P (IntV i) = show_int i"
| "py_str P (FloatV x) =
     (if of_int \<lfloor>x\<rfloor> = x \<and> \<bar>x\<bar> < 10 ^ 16 then show_int \<lfloor>x\<rfloor> @ ''.0''
      else str_other P (FloatV x))"
| "py_str P (StrV s) = s"
| "py_str P (TimeV t) = str_other P (TimeV t)"

text \<open>\<open>pd.to_numeric(v, errors='coerce')\<close> on one cell; \<open>None\<close> is NaN.\<close>

fun to_numeric :: "pandas \<Rightarrow> cell \<Rightarrow> real option" where
  "to_numeric P Null = None"
| "to_numeric P (IntV i) = Some (of_int i)"
| "to_numeric P (FloatV x) = Some x"
| "to_numeric P (StrV s) = numeric_other P (StrV s)"
| "to_numeric P (TimeV t) = numeric_other P (TimeV t)"

text \<open>Column access by name: the position of the first column of that name.\<close>

fun col_index :: "string \<Rightarrow> string list \<Rightarrow> nat option" where
  "col_index c [] = None"
| "col_index c (x # xs) =
     (if x = c then Some 0 else map_option Suc (col_index c xs))"

definition cell_at :: "cell list \<Rightarrow> nat \<Rightarrow> cell" where
  "cell_at r i = (if i < length r then r ! i else Null)"

text \<open>\<open>df[c]\<close>: the cells of the column named \<open>c\<close>, top to bottom.\<close>

definition column :: "table \<Rightarrow> string \<Rightarrow> cell list" where
  "column t c = (case col_index c (cols t) of
       None \<Rightarrow> []
     | Some i \<Rightarrow> map (\<lambda>r. cell_at r i) (rows t))"

text \<open>\<open>df[c] = f(df[c])\<close> for a conversion \<open>f\<close> applied cell by cell.\<close>

definition map_column :: "string \<Rightarrow> (cell \<Rightarrow> cell) \<Rightarrow> table \<Rightarrow> table" where
  "map_column c f t = (case col_index c (cols t) of
       None \<Rightarrow> t
     | Some i \<Rightarrow> t\<lparr>rows := map (\<lambda>r. r[i := f (cell_at r i)]) (rows t)\<rparr>)"

text \<open>\<open>df.rename(columns={old: new})\<close>.\<close>

definition rename :: "string \<Rightarrow> string \<Rightarrow> table \<Rightarrow> table" where
  "rename old new t = t\<lparr>cols := map (\<lambda>c. if c = old then new else c) (cols t)\<rparr>"

text \<open>
  \<open>df.dropna(subset=cs)\<close>: the rows with no missing value in the columns \<open>cs\<close>. The
  code calls it with columns of the table only; with no column at all every row stays.
\<close>

definition dropna_subset :: "string list \<Rightarrow> table \<Rightarrow> table" where
  "dropna_subset cs t =
     t\<lparr>rows := filter (\<lambda>r. list_all (\<lambda>c. case col_index c (cols t) of
                                          None \<Rightarrow> True
                                        | Some i \<Rightarrow> cell_at r i \<noteq> Null) cs) (rows t)\<rparr>"

text \<open>\<open>df.empty\<close>: an axis of length zero.\<close>

definition empty_table :: "table \<Rightarrow> bool" where
  "empty_table t = (rows t = [] \<or> cols t = [])"

section \<open>Errors\<close>

datatype role = Patient | Diagnosis

datatype error =
    SheetNotFoundError role
  | MissingIdentifierColumn role
  | EmptyJoinResult
  | MergeFailure

section \<open>Sheet resolver\<close>

text \<open>\<open>DataProcessor._find_sheet\<close>; \<open>None\<close> is Python's \<open>None\<close>.\<close>

fun find_sheet :: "string list \<Rightarrow> string list \<Rightarrow> string option" where
  "find_sheet [] keywords = None"
| "find_sheet (sheet # sheet_names) keywords =
     (if list_ex (\<lambda>keyword. contains (lower keyword) (lower sheet)) keywords
      then Some sheet
      else find_sheet sheet_names keywords)"

definition patient_keywords :: "string list" where
  "patient_keywords = [''patient'', ''patients'', ''patient_details'']"

definition diagnosis_keywords :: "string list" where
  "diagnosis_keywords = [''diagnosis'', ''diagnoses'', ''diagnosis_details'', ''diag'']"

text \<open>Python's \<open>not sheet\<close> on the resolver's result: \<open>None\<close> and the empty name are falsy.\<close>

definition falsy :: "string option \<Rightarrow> bool" where
  "falsy s = (s = None \<or> s = Some [])"

text \<open>
  The first step of \<open>process_excel_file\<close>: both roles are resolved, then the patient
  sheet is checked before the diagnosis sheet.
\<close>

definition resolve_sheets :: "string list \<Rightarrow> error + (string \<times> string)" where
  "resolve_sheets sheet_names =
     (let patient_sheet = find_sheet sheet_names patient_keywords;
          diagnosis_sheet = find_sheet sheet_names diagnosis_keywords
      in if falsy patient_sheet then Inl (SheetNotFoundError Patient)
         else if falsy diagnosis_sheet then Inl (SheetNotFoundError Diagnosis)
         else Inr (case patient_sheet of Some p \<Rightarrow> p | None \<Rightarrow> [],
                   case diagnosis_sheet of Some d \<Rightarrow> d | None \<Rightarrow> []))"

section \<open>Table cleaner\<close>

text \<open>\<open>df.dropna(how='all')\<close>: the rows with at least one value.\<close>

definition drop_empty_rows :: "table \<Rightarrow> table" where
  "drop_empty_rows t = t\<lparr>rows := filter (\<lambda>r. list_ex (\<lambda>c. c \<noteq> Null) r) (rows t)\<rparr>"

text \<open>\<open>df.dropna(axis=1, how='all')\<close>: the columns with at least one value.\<close>

definition drop_empty_cols :: "table \<Rightarrow> table" where
  "drop_empty_cols t =
     (let keep = filter (\<lambda>i. list_ex (\<lambda>r. cell_at r i \<noteq> Null) (rows t)) [0 ..< length (cols t)]
      in \<lparr>cols = map (\<lambda>i. cols t ! i) keep,
          rows = map (\<lambda>r. map (\<lambda>i. cell_at r i) keep) (rows t)\<rparr>)"

definition registry_keywords :: "string list" where
  "registry_keywords = [''REGISTRY'', ''ID'', ''PATIENT_ID'', ''PATIENTID'']"

text \<open>\<open>DataProcessor._clean_dataframe\<close>. Column names are texts, so \<open>str(col)\<close> is \<open>col\<close>.\<close>

definition clean_dataframe :: "table \<Rightarrow> table" where
  "clean_dataframe df0 =
     (let df1 = drop_empty_cols (drop_empty_rows df0);
          df = df1\<lparr>cols := map (\<lambda>col. upper (strip col)) (cols df1)\<rparr>;
          registry_columns = filter (\<lambda>col. any_keyword_in registry_keywords (upper col)) (cols df)
      in (case registry_columns of
            [] \<Rightarrow> df
          | first # _ \<Rightarrow>
              if ''REGISTRY ID'' \<notin> set (cols df) then rename first ''REGISTRY ID'' df else df))"

section \<open>Column classifier and field normalizer\<close>

text \<open>The choice of the age column in \<open>DataProcessor._process_age_column\<close>.\<close>

definition find_age_column :: "string list \<Rightarrow> string option" where
  "find_age_column columns =
     (if ''AGE'' \<in> set columns then Some ''AGE''
      else
        (let age_columns = filter (\<lambda>col. upper col = ''AGE'' \<or> endswith (upper col) '' AGE'') columns;
             age_columns = (if age_columns = []
                            then filter (\<lambda>col. contains ''AGE'' (upper col)
                                               \<and> \<not> contains ''TRIAGE'' (upper col)) columns
                            else age_columns)
         in (case age_columns of [] \<Rightarrow> None | age_col # _ \<Rightarrow> Some age_col)))"

text \<open>
  \<open>pd.to_numeric(df[age_col], errors='coerce')\<close> on one cell. The result column is
  numeric; the dtype (int64 or float64) is not modelled and a number is written
  \<open>FloatV\<close>.
\<close>

definition coerce_numeric :: "pandas \<Rightarrow> cell \<Rightarrow> cell" where
  "coerce_numeric P c = (case to_numeric P c of None \<Rightarrow> Null | Some x \<Rightarrow> FloatV x)"

text \<open>\<open>df.loc[(df[age_col] < 0) | (df[age_col] > 150), age_col] = np.nan\<close> on one cell.\<close>

fun age_range_check :: "cell \<Rightarrow> cell" where
  "age_range_check (FloatV x) = (if x < 0 \<or> x > 150 then Null else FloatV x)"
| "age_range_check c = c"

text \<open>The two steps on one cell.\<close>

definition normalize_age :: "pandas \<Rightarrow> cell \<Rightarrow> cell" where
  "normalize_age P c = age_range_check (coerce_numeric P c)"


text \<open>\<open>DataProcessor._process_age_column\<close>; the messages to the user are left out.\<close>

definition process_age_column :: "pandas \<Rightarrow> table \<Rightarrow> table" where
  "process_age_column P df =
     (case find_age_column (cols df) of
        None \<Rightarrow> df
      | Some age_col \<Rightarrow>
          (let df1 = map_column age_col (coerce_numeric P) df;
               df2 = map_column age_col age_range_check df1
           in if age_col \<noteq> ''AGE'' then rename age_col ''AGE'' df2 else df2))"

definition gender_mapping :: "(string \<times> string) list" where
  "gender_mapping =
     [(''1'', ''MALE''), (''1.0'', ''MALE''),
      (''2'', ''FEMALE''), (''2.0'', ''FEMALE''),
      (''3'', ''TRANSGENDER''), (''3.0'', ''TRANSGENDER''),
      (''M'', ''MALE''), (''MALE'', ''MALE''), (''MAN'', ''MALE''),
      (''F'', ''FEMALE''), (''FEMALE'', ''FEMALE''), (''WOMAN'', ''FEMALE''),
      (''T'', ''TRANSGENDER''), (''TRANSGENDER'', ''TRANSGENDER''), (''TRANS'', ''TRANSGENDER''),
      (''O'', ''OTHER''), (''OTHER'', ''OTHER''), (''OTHERS'', ''OTHER'')]"

text \<open>\<open>df[gender_col].astype(str).str.strip()\<close> on one cell.\<close>

definition gender_text :: "pandas \<Rightarrow> cell \<Rightarrow> cell" where
  "gender_text P c = StrV (strip (py_str P c))"

text \<open>
  \<open>df[gender_col].str.upper().map(gender_mapping).fillna(df[gender_col].str.upper())\<close>
  on one cell. The \<open>.str\<close> accessor gives NaN on a cell that is not a text.
\<close>

fun gender_map :: "cell \<Rightarrow> cell" where
  "gender_map (StrV s) =
     (case map_of gender_mapping (upper s) of Some g \<Rightarrow> StrV g | None \<Rightarrow> StrV (upper s))"
| "gender_map c = Null"


text \<open>\<open>DataProcessor._process_gender_column\<close>; the messages to the user are left out.\<close>

definition process_gender_column :: "pandas \<Rightarrow> table \<Rightarrow> table" where
  "process_gender_column P df =
     (case filter (\<lambda>col. any_keyword_in [''GENDER'', ''SEX''] (upper col)) (cols df) of
        [] \<Rightarrow> df
      | gender_col # _ \<Rightarrow>
          (let df1 = map_column gender_col (gender_text P) df;
               df2 = map_column gender_col gender_map df1
           in if gender_col \<noteq> ''GENDER'' then rename gender_col ''GENDER'' df2 else df2))"

definition date_keywords :: "string list" where
  "date_keywords = [''DATE'', ''TIME'', ''CREATED'', ''UPDATED'', ''ADMISSION'', ''DISCHARGE'']"

text \<open>
  \<open>DataProcessor._process_date_columns\<close>: a column whose conversion raises is left as
  it is and the loop goes on.
\<close>

definition process_date_columns :: "pandas \<Rightarrow> table \<Rightarrow> table" where
  "process_date_columns P df =
     fold (\<lambda>col d. case to_datetime P (column d col) of
                       None \<Rightarrow> d
                     | Some f \<Rightarrow> map_column col f d)
          (filter (\<lambda>col. any_keyword_in date_keywords (upper col)) (cols df)) df"

text \<open>\<open>DataProcessor._process_diagnosis_columns\<close>.\<close>

definition process_diagnosis_columns :: "pandas \<Rightarrow> table \<Rightarrow> table" where
  "process_diagnosis_columns P df =
     fold (\<lambda>col d.
             map_column col (\<lambda>c. if c = StrV ''NAN'' then Null else c)
               (map_column col (\<lambda>c. StrV (upper (strip (py_str P c)))) d))
          (filter (\<lambda>col. contains ''DIAGNOSIS'' (upper col) \<or> contains ''CONDITION'' (upper col))
             (cols df)) df"

section \<open>Validation before the join\<close>

text \<open>\<open>dropna(subset=['REGISTRY ID'])\<close>, then \<open>astype(str)\<close> on the identifier.\<close>

definition identifier_as_text :: "pandas \<Rightarrow> table \<Rightarrow> table" where
  "identifier_as_text P df =
     map_column ''REGISTRY ID'' (\<lambda>c. StrV (py_str P c)) (dropna_subset [''REGISTRY ID''] df)"

text \<open>\<open>DataProcessor._validate_patient_data\<close>.\<close>

definition validate_patient_data :: "pandas \<Rightarrow> table \<Rightarrow> error + table" where
  "validate_patient_data P df =
     (if ''REGISTRY ID'' \<notin> set (cols df) then Inl (MissingIdentifierColumn Patient)
      else Inr (process_date_columns P
                 (process_gender_column P
                   (process_age_column P (identifier_as_text P df)))))"

text \<open>\<open>DataProcessor._validate_diagnosis_data\<close>.\<close>

definition validate_diagnosis_data :: "pandas \<Rightarrow> table \<Rightarrow> error + table" where
  "validate_diagnosis_data P df =
     (if ''REGISTRY ID'' \<notin> set (cols df) then Inl (MissingIdentifierColumn Diagnosis)
      else Inr (process_diagnosis_columns P
                 (process_date_columns P (identifier_as_text P df))))"

section \<open>Join engine\<close>

definition drop_at :: "nat \<Rightarrow> 'a list \<Rightarrow> 'a list" where
  "drop_at i xs = take i xs @ drop (Suc i) xs"

text \<open>
  The columns of \<open>left.merge(right, on=key, suffixes=('_DIAG', '_PATIENT'))\<close>: the left
  columns, then the right columns without the key; a name that both sides have, other
  than the key, gets its side's suffix.
\<close>

definition merged_columns :: "string \<Rightarrow> nat \<Rightarrow> string list \<Rightarrow> string list \<Rightarrow> string list" where
  "merged_columns key kr lcols rcols =
     map (\<lambda>c. if c \<noteq> key \<and> c \<in> set rcols then c @ ''_DIAG'' else c) lcols
     @ map (\<lambda>c. if c \<in> set lcols then c @ ''_PATIENT'' else c) (drop_at kr rcols)"

text \<open>
  The rows of a left join (\<open>how='left'\<close>): the left rows in their order, each once for
  every right row with the same key, in the right table's order, and once with missing
  values on the right side when no right row has that key.
\<close>

definition left_join_rows :: "nat \<Rightarrow> nat \<Rightarrow> nat \<Rightarrow> cell list list \<Rightarrow> cell list list \<Rightarrow> cell list list" where
  "left_join_rows kl kr n lrows rrows =
     concat (map (\<lambda>l. case filter (\<lambda>r. cell_at r kr = cell_at l kl) rrows of
                         [] \<Rightarrow> [l @ replicate n Null]
                       | m # ms \<Rightarrow> map (\<lambda>r. l @ drop_at kr r) (m # ms)) lrows)"

text \<open>
  \<open>diagnosis_data.merge(patient_data, on='REGISTRY ID', how='left', suffixes=...)\<close> for
  tables with distinct column names: pandas raises when a side lacks the key, and when
  the suffixes leave two columns of one name.
\<close>

definition merge_tables :: "table \<Rightarrow> table \<Rightarrow> table option" where
  "merge_tables left right =
     (case (col_index ''REGISTRY ID'' (cols left), col_index ''REGISTRY ID'' (cols right)) of
        (Some kl, Some kr) \<Rightarrow>
          (let merged = \<lparr>cols = merged_columns ''REGISTRY ID'' kr (cols left) (cols right),
                         rows = left_join_rows kl kr (length (cols right) - 1)
                                  (rows left) (rows right)\<rparr>
           in if distinct (cols merged) then Some merged else None)
      | _ \<Rightarrow> None)"

text \<open>
  \<open>DataProcessor._merge_data\<close>. The message \<open>Merge completed: matched/total diagnosis
  records matched with patient data\<close> is returned as the pair \<open>(matched, total)\<close>.
\<close>

definition merge_data :: "table \<Rightarrow> table \<Rightarrow> error + (table \<times> nat \<times> nat)" where
  "merge_data patient_data diagnosis_data =
     (case merge_tables diagnosis_data patient_data of
        None \<Rightarrow> Inl MergeFailure
      | Some merged_data \<Rightarrow>
          if empty_table merged_data then Inl EmptyJoinResult
          else
            (let total_diagnoses = length (rows diagnosis_data);
                 matched_diagnoses =
                   length (rows (dropna_subset
                     (filter (\<lambda>col. endswith col ''_PATIENT'') (cols merged_data)) merged_data))
             in Inr (merged_data, matched_diagnoses, total_diagnoses)))"

section \<open>The pipeline\<close>

text \<open>
  A workbook is its sheets in order, each a name and the table \<open>pd.read_excel\<close> reads
  from it. \<open>read_excel\<close> is only called with the name of a sheet of the workbook.
\<close>

type_synonym workbook = "(string \<times> table) list"

definition read_excel :: "workbook \<Rightarrow> string \<Rightarrow> table" where
  "read_excel wb sheet = (case map_of wb sheet of Some t \<Rightarrow> t | None \<Rightarrow> \<lparr>cols = [], rows = []\<rparr>)"

text \<open>\<open>DataProcessor.process_excel_file\<close>: the first failure is the result.\<close>

definition process_excel_file :: "pandas \<Rightarrow> workbook \<Rightarrow> error + (table \<times> table \<times> table)" where
  "process_excel_file P wb =
     (case resolve_sheets (map fst wb) of
        Inl e \<Rightarrow> Inl e
      | Inr (patient_sheet, diagnosis_sheet) \<Rightarrow>
          (case validate_patient_data P (clean_dataframe (read_excel wb patient_sheet)) of
             Inl e \<Rightarrow> Inl e
           | Inr patient_data \<Rightarrow>
               (case validate_diagnosis_data P (clean_dataframe (read_excel wb diagnosis_sheet)) of
                  Inl e \<Rightarrow> Inl e
                | Inr diagnosis_data \<Rightarrow>
                    (case merge_data patient_data diagnosis_data of
                       Inl e \<Rightarrow> Inl e
                     | Inr (merged_data, report) \<Rightarrow>
                         Inr (patient_data, diagnosis_data, merged_data)))))"

section \<open>Validation and summary\<close>

text \<open>\<open>Series.duplicated()\<close>: true where the value has occurred before.\<close>

definition duplicated :: "'a list \<Rightarrow> bool list" where
  "duplicated xs = map (\<lambda>i. xs ! i \<in> set (take i xs)) [0 ..< length xs]"

definition count_true :: "bool list \<Rightarrow> nat" where
  "count_true bs = length (filter (\<lambda>b. b) bs)"

datatype info_value = Count nat | ColumnTypes "(string \<times> string) list"

record validation =
  is_valid :: bool
  errors :: "string list"
  warnings :: "string list"
  info :: "string \<rightharpoonup> info_value"

definition missing_columns_message :: string where
  "missing_columns_message =
     ''Missing required columns: ['' @ [CHR 0x27] @ ''REGISTRY ID'' @ [CHR 0x27] @ '']''"

definition duplicate_ids_message :: "nat \<Rightarrow> string" where
  "duplicate_ids_message n =
     ''Found '' @ show_nat n @ '' duplicate Registry IDs (this is normal for diagnosis data)''"

text \<open>\<open>utils.validate_data\<close>.\<close>

definition validate_data :: "pandas \<Rightarrow> table \<Rightarrow> validation" where
  "validate_data P df =
     (if empty_table df
      then \<lparr>is_valid = False, errors = [''DataFrame is empty''], warnings = [], info = Map.empty\<rparr>
      else
        (let missing_columns = filter (\<lambda>col. col \<notin> set (cols df)) [''REGISTRY ID''];
             duplicate_ids = count_true (duplicated (column df ''REGISTRY ID''))
         in \<lparr>is_valid = (missing_columns = []),
             errors = (if missing_columns \<noteq> [] then [missing_columns_message] else []),
             warnings = (if ''REGISTRY ID'' \<in> set (cols df) \<and> duplicate_ids > 0
                         then [duplicate_ids_message duplicate_ids] else []),
             info = [''total_rows'' \<mapsto> Count (length (rows df)),
                     ''total_columns'' \<mapsto> Count (length (cols df)),
                     ''missing_values'' \<mapsto> Count (length (filter (\<lambda>c. c = Null) (concat (rows df)))),
                     ''duplicate_rows'' \<mapsto> Count (count_true (duplicated (rows df))),
                     ''column_types'' \<mapsto> ColumnTypes (map (\<lambda>c. (c, dtype_of P (column df c))) (cols df))]\<rparr>))"

text \<open>The keys of the \<open>info\<close> dictionary of \<open>validate_data\<close>.\<close>

definition info_keys :: "string set" where
  "info_keys = {''total_rows'', ''total_columns'', ''missing_values'', ''duplicate_rows'', ''column_types''}"

section \<open>Summary report\<close>

text \<open>\<open>Series.unique()\<close>: the values in the order of their first occurrence.\<close>

fun unique :: "'a list \<Rightarrow> 'a list" where
  "unique [] = []"
| "unique (x # xs) = x # filter (\<lambda>y. y \<noteq> x) (unique xs)"

text \<open>What \<open>GroupBy.first()\<close> takes from a group: its first value that is not missing.\<close>

fun first_valid :: "cell list \<Rightarrow> cell" where
  "first_valid [] = Null"
| "first_valid (c # cs) = (if c \<noteq> Null then c else first_valid cs)"

text \<open>
  \<open>df.groupby(key)[c].first()\<close>: one entry for each key that is not missing. pandas
  orders the groups by key; the model lists them by first occurrence, and nothing below
  depends on the order.
\<close>

definition groupby_first :: "table \<Rightarrow> string \<Rightarrow> string \<Rightarrow> (cell \<times> cell) list" where
  "groupby_first df key c =
     map (\<lambda>k. (k, first_valid (map snd (filter (\<lambda>(k', v). k' = k) (zip (column df key) (column df c))))))
         (unique (filter (\<lambda>k. k \<noteq> Null) (column df key)))"

text \<open>
  \<open>Series.value_counts()\<close>: each value that is not missing with the number of its
  occurrences. pandas orders by falling count; the model lists by first occurrence.
\<close>

definition value_counts :: "cell list \<Rightarrow> (cell \<times> nat) list" where
  "value_counts xs =
     map (\<lambda>v. (v, length (filter (\<lambda>x. x = v) xs))) (unique (filter (\<lambda>x. x \<noteq> Null) xs))"

fun number_of :: "cell \<Rightarrow> real option" where
  "number_of (IntV i) = Some (of_int i)"
| "number_of (FloatV x) = Some x"
| "number_of c = None"

datatype age_stats = NoAgeColumn | NoAges | AgeStats real real real

datatype report_error = ZeroDivisionError | KeyError | TypeError

record report =
  total_patients :: nat
  total_diagnoses :: nat
  merged_records :: nat
  average_diagnoses :: real
  gender_distribution :: "(cell \<times> nat \<times> real) list option"
  age_statistics :: age_stats

text \<open>
  \<open>ages.mean()\<close>, \<open>ages.min()\<close> and \<open>ages.max()\<close>, which skip the missing values.
\<close>

definition age_summary :: "cell list \<Rightarrow> age_stats" where
  "age_summary ages =
     (case List.map_filter number_of ages of
        [] \<Rightarrow> NoAges
      | x # xs \<Rightarrow> AgeStats (sum_list (x # xs) / real (length (x # xs)))
                          (fold min xs x) (fold max xs x))"

text \<open>
  \<open>generate_summary_report\<close> of \<open>app.py\<close>: the numbers the report prints, before they
  are formatted, for the overview, the gender distribution and the age statistics.
  The division by \<open>len(patient_data)\<close>, the lookup of the identifier column and the
  arithmetic on an age that is a text are where it raises.
\<close>

definition generate_summary_report :: "table \<Rightarrow> table \<Rightarrow> table \<Rightarrow> report_error + report" where
  "generate_summary_report merged_data patient_data diagnosis_data =
     (let n_patients = length (rows patient_data);
          has_gender = ''GENDER'' \<in> set (cols merged_data);
          has_age = ''AGE'' \<in> set (cols merged_data);
          gender_counts = value_counts (map snd (groupby_first merged_data ''REGISTRY ID'' ''GENDER''));
          ages = map snd (groupby_first merged_data ''REGISTRY ID'' ''AGE'')
      in if n_patients = 0 then Inl ZeroDivisionError
         else if (has_gender \<or> has_age) \<and> ''REGISTRY ID'' \<notin> set (cols merged_data) then Inl KeyError
         else if has_age \<and> list_ex (\<lambda>a. a \<noteq> Null \<and> number_of a = None) ages then Inl TypeError
         else Inr \<lparr>total_patients = n_patients,
                   total_diagnoses = length (rows diagnosis_data),
                   merged_records = length (rows merged_data),
                   average_diagnoses = real (length (rows diagnosis_data)) / real n_patients,
                   gender_distribution =
                     (if has_gender
                      then Some (map (\<lambda>(gender, count). (gender, count, real count / real n_patients * 100))
                                   gender_counts)
                      else None),
                   age_statistics = (if has_age then age_summary ages else NoAgeColumn)\<rparr>)"

section \<open>Examples\<close>

fun parse_digits :: "string \<Rightarrow> nat \<Rightarrow> nat option" where
  "parse_digits [] acc = Some acc"
| "parse_digits (c # cs) acc =
     (case map_of (zip ''0123456789'' [0, 1, 2, 3, 4, 5, 6, 7, 8, 9]) c of
        None \<Rightarrow> None
      | Some d \<Rightarrow> parse_digits cs (10 * acc + d))"

text \<open>
  A library that reads a number from a text of decimal digits only, fails to convert
  any column to dates, and calls every column \<open>object\<close>.
\<close>

definition example_pandas :: pandas where
  "example_pandas =
     \<lparr>str_other = (\<lambda>c. ''?''),
      numeric_other = (\<lambda>c. case c of
                             StrV s \<Rightarrow> if s = [] then None else map_option real (parse_digits s 0)
                           | _ \<Rightarrow> None),
      to_datetime = (\<lambda>col. None),
      dtype_of = (\<lambda>col. ''object'')\<rparr>"

definition age_example :: table where
  "age_example =
     \<lparr>cols = [''REGISTRY ID'', ''PATIENT AGE''],
      rows = [[StrV ''A1'', StrV ''34''], [StrV ''B2'', IntV 200], [StrV ''C3'', StrV ''n/a''],
              [StrV ''D4'', IntV (- 1)], [StrV ''E5'', IntV 150]]\<rparr>"


text \<open>
  The example of the specification: one patient, two diagnosis events, one of them
  for an identifier the patient sheet does not have.
\<close>

definition example_workbook :: workbook where
  "example_workbook =
     [(''Patient_Details'',
        \<lparr>cols = [''Registry ID'', ''Age'', ''Sex''],
         rows = [[StrV ''A1'', StrV ''34'', StrV ''M'']]\<rparr>),
      (''Diagnosis_Details'',
        \<lparr>cols = [''Registry ID'', ''Diagnosis''],
         rows = [[StrV ''A1'', StrV ''flu''], [StrV ''B2'', StrV ''cold'']]\<rparr>)]"

definition patient_example :: table where
  "patient_example =
     \<lparr>cols = [''REGISTRY ID'', ''AGE'', ''GENDER''],
      rows = [[StrV ''A1'', FloatV 34, StrV ''MALE'']]\<rparr>"

definition diagnosis_example :: table where
  "diagnosis_example =
     \<lparr>cols = [''REGISTRY ID'', ''DIAGNOSIS''],
      rows = [[StrV ''A1'', StrV ''FLU''], [StrV ''B2'', StrV ''COLD'']]\<rparr>"

definition merged_example :: table where
  "merged_example =
     \<lparr>cols = [''REGISTRY ID'', ''DIAGNOSIS'', ''AGE'', ''GENDER''],
      rows = [[StrV ''A1'', StrV ''FLU'', FloatV 34, StrV ''MALE''],
              [StrV ''B2'', StrV ''COLD'', Null, Null]]\<rparr>"

text \<open>A diagnosis table none of whose identifiers is in \<open>patient_example\<close>.\<close>

definition disjoint_diagnosis_example :: table where
  "disjoint_diagnosis_example =
     \<lparr>cols = [''REGISTRY ID'', ''DIAGNOSIS''], rows = [[StrV ''B2'', StrV ''COLD'']]\<rparr>"

definition disjoint_merged_example :: table where
  "disjoint_merged_example =
     \<lparr>cols = [''REGISTRY ID'', ''DIAGNOSIS'', ''AGE'', ''GENDER''],
      rows = [[StrV ''B2'', StrV ''COLD'', Null, Null]]\<rparr>"

text \<open>A workbook whose patient sheet has two rows for one identifier.\<close>

definition duplicate_workbook :: workbook where
  "duplicate_workbook =
     [(''Patient_Details'',
        \<lparr>cols = [''Registry ID'', ''Age'', ''Sex''],
         rows = [[StrV ''A1'', StrV ''34'', StrV ''M''], [StrV ''A1'', StrV ''n/a'', StrV ''F'']]\<rparr>),
      (''Diagnosis_Details'',
        \<lparr>cols = [''Registry ID'', ''Diagnosis''],
         rows = [[StrV ''A1'', StrV ''flu''], [StrV ''B2'', StrV ''cold'']]\<rparr>)]"

definition duplicate_patient_example :: table where
  "duplicate_patient_example =
     \<lparr>cols = [''REGISTRY ID'', ''AGE'', ''GENDER''],
      rows = [[StrV ''A1'', FloatV 34, StrV ''MALE''], [StrV ''A1'', Null, StrV ''FEMALE'']]\<rparr>"

definition duplicate_merged_example :: table where
  "duplicate_merged_example =
     \<lparr>cols = [''REGISTRY ID'', ''DIAGNOSIS'', ''AGE'', ''GENDER''],
      rows = [[StrV ''A1'', StrV ''FLU'', FloatV 34, StrV ''MALE''],
              [StrV ''A1'', StrV ''FLU'', Null, StrV ''FEMALE''],
              [StrV ''B2'', StrV ''COLD'', Null, Null]]\<rparr>"

text \<open>A table with columns and no rows, and a table without the identifier column.\<close>

definition no_rows_example :: table where
  "no_rows_example = \<lparr>cols = [''REGISTRY ID'', ''DIAGNOSIS''], rows = []\<rparr>"

definition no_identifier_example :: table where
  "no_identifier_example = \<lparr>cols = [''NAME''], rows = [[StrV ''X'']]\<rparr>"

text \<open>
  A workbook whose patient identifiers are whole numbers (an integer column) and whose
  diagnosis identifiers are texts with one blank cell; its two sheets after cleaning,
  after validation, and the merged table.
\<close>

definition identifier_workbook :: workbook where
  "identifier_workbook =
     [(''Patients'',
        \<lparr>cols = [''Registry ID'', ''Age''],
         rows = [[IntV 1, IntV 30], [IntV 2, IntV 40]]\<rparr>),
      (''Diagnoses'',
        \<lparr>cols = [''Registry ID'', ''Diagnosis''],
         rows = [[StrV ''1'', StrV ''flu''], [Null, StrV ''cough''], [StrV ''1.0'', StrV ''cold'']]\<rparr>)]"

definition identifier_patient_example :: table where
  "identifier_patient_example =
     \<lparr>cols = [''REGISTRY ID'', ''AGE''],
      rows = [[IntV 1, IntV 30], [IntV 2, IntV 40]]\<rparr>"

definition identifier_diagnosis_example :: table where
  "identifier_diagnosis_example =
     \<lparr>cols = [''REGISTRY ID'', ''DIAGNOSIS''],
      rows = [[StrV ''1'', StrV ''flu''], [Null, StrV ''cough''], [StrV ''1.0'', StrV ''cold'']]\<rparr>"

definition identifier_patient_validated :: table where
  "identifier_patient_validated =
     \<lparr>cols = [''REGISTRY ID'', ''AGE''],
      rows = [[StrV ''1'', FloatV 30], [StrV ''2'', FloatV 40]]\<rparr>"

definition identifier_diagnosis_validated :: table where
  "identifier_diagnosis_validated =
     \<lparr>cols = [''REGISTRY ID'', ''DIAGNOSIS''],
      rows = [[StrV ''1'', StrV ''FLU''], [StrV ''1.0'', StrV ''COLD'']]\<rparr>"

definition identifier_merged_example :: table where
  "identifier_merged_example =
     \<lparr>cols = [''REGISTRY ID'', ''DIAGNOSIS'', ''AGE''],
      rows = [[StrV ''1'', StrV ''FLU'', FloatV 30], [StrV ''1.0'', StrV ''COLD'', Null]]\<rparr>"

text \<open>
  A workbook whose patient identifiers are whole numbers with one blank cell, which
  makes the column a float column, and whose diagnosis identifiers are an integer
  column; its patient sheet after cleaning.
\<close>

definition float_identifier_workbook :: workbook where
  "float_identifier_workbook =
     [(''Patients'',
        \<lparr>cols = [''Registry ID'', ''Age''],
         rows = [[FloatV 1, IntV 30], [Null, IntV 50], [FloatV 2, IntV 40]]\<rparr>),
      (''Diagnoses'',
        \<lparr>cols = [''Registry ID'', ''Diagnosis''],
         rows = [[IntV 1, StrV ''flu''], [IntV 2, StrV ''cold'']]\<rparr>)]"

definition float_identifier_patient_example :: table where
  "float_identifier_patient_example =
     \<lparr>cols = [''REGISTRY ID'', ''AGE''],
      rows = [[FloatV 1, IntV 30], [Null, IntV 50], [FloatV 2, IntV 40]]\<rparr>"

text \<open>
  A workbook whose patient sheet has two rows for one identifier, the first without a
  readable age, with its patient table and merged table.
\<close>

definition report_workbook :: workbook where
  "report_workbook =
     [(''Patient_Details'',
        \<lparr>cols = [''Registry ID'', ''Age'', ''Sex''],
         rows = [[StrV ''A1'', StrV ''n/a'', StrV ''M''], [StrV ''A1'', StrV ''40'', StrV ''M'']]\<rparr>),
      (''Diagnosis_Details'',
        \<lparr>cols = [''Registry ID'', ''Diagnosis''],
         rows = [[StrV ''A1'', StrV ''flu''], [StrV ''B2'', StrV ''cold'']]\<rparr>)]"

definition report_patient_example :: table where
  "report_patient_example =
     \<lparr>cols = [''REGISTRY ID'', ''AGE'', ''GENDER''],
      rows = [[StrV ''A1'', Null, StrV ''MALE''], [StrV ''A1'', FloatV 40, StrV ''MALE'']]\<rparr>"

definition report_merged_example :: table where
  "report_merged_example =
     \<lparr>cols = [''REGISTRY ID'', ''DIAGNOSIS'', ''AGE'', ''GENDER''],
      rows = [[StrV ''A1'', StrV ''FLU'', Null, StrV ''MALE''],
              [StrV ''A1'', StrV ''FLU'', FloatV 40, StrV ''MALE''],
              [StrV ''B2'', StrV ''COLD'', Null, Null]]\<rparr>"

section \<open>Auxiliary definitions for the proofs\<close>

text \<open>The right-hand part a left row gets when the right keys are distinct.\<close>

definition right_part :: "nat \<Rightarrow> nat \<Rightarrow> cell list list \<Rightarrow> cell \<Rightarrow> cell list" where
  "right_part kr n rrows k =
     (case List.find (\<lambda>r. cell_at r kr = k) rrows of
        None \<Rightarrow> replicate n Null
      | Some r \<Rightarrow> drop_at kr r)"

text \<open>
  A table transformer that leaves the identifier column and the number of rows as
  they are.
\<close>

definition key_kept :: "(table \<Rightarrow> table) \<Rightarrow> bool" where
  "key_kept g = (\<forall>t. column (g t) ''REGISTRY ID'' = column t ''REGISTRY ID''
                    \<and> length (rows (g t)) = length (rows t))"

section \<open>Sheet resolver: first match in sheet order\<close>

lemma find_sheet_find:
  "find_sheet sheet_names keywords =
     List.find (\<lambda>sheet. \<exists>k \<in> set keywords. contains (lower k) (lower sheet)) sheet_names"
  by (induction sheet_names) (simp_all add: list_ex_iff)

lemma find_sheet_nonempty_name:
  assumes "find_sheet sheet_names keywords = Some s" and "[] \<notin> set keywords"
  shows "s \<noteq> []"
  using assms
proof (induction sheet_names)
  case Nil
  then show ?case by simp
next
  case (Cons a as)
  show ?case
  proof (cases "list_ex (\<lambda>keyword. contains (lower keyword) (lower a)) keywords")
    case True
    then obtain k where k: "k \<in> set keywords" "contains (lower k) (lower a)"
      by (auto simp: list_ex_iff)
    from True Cons.prems have "s = a" by simp
    moreover have "k \<noteq> []" using k Cons.prems by auto
    ultimately show ?thesis using k by (cases a) (auto simp: lower_def)
  next
    case False
    then show ?thesis using Cons by simp
  qed
qed

text \<open>
  C7. The resolver returns the first sheet, in the workbook's sheet order, whose
  lowercased name contains a lowercased keyword; for a keyword list that is already
  lowercase, as both role lists are, that is the first sheet whose lowercased name
  contains a keyword. The result depends on the set of keywords only, not on their
  order. The pipeline fails with the sheet-not-found error of the patient role when
  no sheet matches the patient keywords, and of the diagnosis role when a patient
  sheet is found and no sheet matches the diagnosis keywords; so it fails with a
  sheet-not-found error whenever a role has no sheet, and when both roles have one
  these two sheets are the ones read.
\<close>

theorem sheet_resolution:
  "find_sheet sheet_names keywords =
     List.find (\<lambda>sheet. \<exists>k \<in> set keywords. contains (lower k) (lower sheet)) sheet_names
   \<and> ((\<forall>k \<in> set keywords. lower k = k) \<longrightarrow>
        find_sheet sheet_names keywords =
          List.find (\<lambda>sheet. \<exists>k \<in> set keywords. contains k (lower sheet)) sheet_names)
   \<and> (\<forall>k \<in> set (patient_keywords @ diagnosis_keywords). lower k = k)
   \<and> (set keywords = set keywords' \<longrightarrow>
        find_sheet sheet_names keywords = find_sheet sheet_names keywords')
   \<and> (find_sheet (map fst wb) patient_keywords = None \<longrightarrow>
        process_excel_file P wb = Inl (SheetNotFoundError Patient))
   \<and> (find_sheet (map fst wb') patient_keywords \<noteq> None
        \<and> find_sheet (map fst wb') diagnosis_keywords = None \<longrightarrow>
        process_excel_file P wb' = Inl (SheetNotFoundError Diagnosis))
   \<and> (find_sheet (map fst wb) patient_keywords = None
        \<or> find_sheet (map fst wb) diagnosis_keywords = None \<longrightarrow>
        (\<exists>r. process_excel_file P wb = Inl (SheetNotFoundError r)))
   \<and> (find_sheet sheet_names patient_keywords = Some p
        \<and> find_sheet sheet_names diagnosis_keywords = Some d \<longrightarrow>
        resolve_sheets sheet_names = Inr (p, d))"
proof -
  have first: "find_sheet sheet_names keywords =
     List.find (\<lambda>sheet. \<exists>k \<in> set keywords. contains (lower k) (lower sheet)) sheet_names"
    by (rule find_sheet_find)
  have lowercase: "find_sheet sheet_names keywords =
          List.find (\<lambda>sheet. \<exists>k \<in> set keywords. contains k (lower sheet)) sheet_names"
    if "\<forall>k \<in> set keywords. lower k = k"
  proof -
    have "(\<exists>k \<in> set keywords. contains (lower k) (lower sheet))
          = (\<exists>k \<in> set keywords. contains k (lower sheet))" for sheet
      using that by auto
    then show ?thesis by (simp add: find_sheet_find)
  qed
  have roles: "\<forall>k \<in> set (patient_keywords @ diagnosis_keywords). lower k = k"
    by code_simp
  have order: "find_sheet sheet_names keywords = find_sheet sheet_names keywords'"
    if "set keywords = set keywords'"
    using that by (simp add: find_sheet_find)
  have nonempty: "s \<noteq> []" if "find_sheet names patient_keywords = Some s" for names s
    using find_sheet_nonempty_name [OF that] by (simp add: patient_keywords_def)
  have nonempty': "s \<noteq> []" if "find_sheet names diagnosis_keywords = Some s" for names s
    using find_sheet_nonempty_name [OF that] by (simp add: diagnosis_keywords_def)
  have patient: "process_excel_file P w = Inl (SheetNotFoundError Patient)"
    if "find_sheet (map fst w) patient_keywords = None" for w
    using that by (simp add: process_excel_file_def resolve_sheets_def falsy_def)
  have diagnosis: "process_excel_file P w = Inl (SheetNotFoundError Diagnosis)"
    if a: "find_sheet (map fst w) patient_keywords \<noteq> None
           \<and> find_sheet (map fst w) diagnosis_keywords = None" for w
  proof -
    from a obtain s where s: "find_sheet (map fst w) patient_keywords = Some s"
      by auto
    then show ?thesis
      using a nonempty [OF s] by (simp add: process_excel_file_def resolve_sheets_def falsy_def)
  qed
  have either: "\<exists>r. process_excel_file P wb = Inl (SheetNotFoundError r)"
    if "find_sheet (map fst wb) patient_keywords = None
        \<or> find_sheet (map fst wb) diagnosis_keywords = None"
    using that patient [of wb] diagnosis [of wb] by blast
  have both: "resolve_sheets sheet_names = Inr (p, d)"
    if "find_sheet sheet_names patient_keywords = Some p
        \<and> find_sheet sheet_names diagnosis_keywords = Some d"
    using that nonempty [of sheet_names p] nonempty' [of sheet_names d]
    by (simp add: resolve_sheets_def falsy_def)
  show ?thesis
    using first lowercase roles order patient [of wb] diagnosis [of wb'] either both
    by (intro conjI impI) blast+
qed

theorem sheet_resolution_witness:
  "find_sheet [''Summary'', ''Diag 2020'', ''Patient_Details''] [''details'', ''diag'']
     = Some ''Diag 2020''
   \<and> find_sheet [''Summary'', ''Diag 2020'', ''Patient_Details''] [''diag'', ''details'']
     = Some ''Diag 2020''
   \<and> process_excel_file example_pandas [(''Summary'', \<lparr>cols = [], rows = []\<rparr>)]
     = Inl (SheetNotFoundError Patient)
   \<and> process_excel_file example_pandas [(''Patients'', \<lparr>cols = [], rows = []\<rparr>)]
     = Inl (SheetNotFoundError Diagnosis)
   \<and> resolve_sheets [''Summary'', ''Diag 2020'', ''Patient_Details'']
     = Inr (''Patient_Details'', ''Diag 2020'')"
proof -
  let ?names = "[''Summary'', ''Diag 2020'', ''Patient_Details'']"
  let ?wb = "[(''Summary'', \<lparr>cols = [], rows = []\<rparr>)]"
  let ?wb' = "[(''Patients'', \<lparr>cols = [], rows = []\<rparr>)]"
  have h0: "\<forall>k \<in> set [''details'', ''diag'']. lower k = k"
    by code_simp
  have h1: "set [''details'', ''diag''] = set [''diag'', ''details'']"
    by auto
  have h2: "find_sheet (map fst ?wb) patient_keywords = None"
    by code_simp
  have h3: "find_sheet (map fst ?wb') patient_keywords \<noteq> None
            \<and> find_sheet (map fst ?wb') diagnosis_keywords = None"
    by code_simp
  have h4: "find_sheet ?names patient_keywords = Some ''Patient_Details''
            \<and> find_sheet ?names diagnosis_keywords = Some ''Diag 2020''"
    by code_simp
  have rhs: "List.find (\<lambda>sheet. \<exists>k \<in> set [''details'', ''diag'']. contains k (lower sheet)) ?names
             = Some ''Diag 2020''"
    by code_simp
  note T = sheet_resolution [of ?names "[''details'', ''diag'']" "[''diag'', ''details'']"
      ?wb example_pandas ?wb' "''Patient_Details''" "''Diag 2020''"]
  have c2: "find_sheet ?names [''details'', ''diag''] =
      List.find (\<lambda>sheet. \<exists>k \<in> set [''details'', ''diag'']. contains k (lower sheet)) ?names"
    by (rule T [THEN conjunct2, THEN conjunct1, THEN mp, OF h0])
  have first: "find_sheet ?names [''details'', ''diag''] = Some ''Diag 2020''"
    using c2 rhs by (simp only:)
  have c4: "find_sheet ?names [''details'', ''diag''] = find_sheet ?names [''diag'', ''details'']"
    by (rule T [THEN conjunct2, THEN conjunct2, THEN conjunct2, THEN conjunct1, THEN mp, OF h1])
  have second: "find_sheet ?names [''diag'', ''details''] = Some ''Diag 2020''"
    using c4 first by (simp only:)
  have c5: "process_excel_file example_pandas ?wb = Inl (SheetNotFoundError Patient)"
    by (rule T [THEN conjunct2, THEN conjunct2, THEN conjunct2, THEN conjunct2,
          THEN conjunct1, THEN mp, OF h2])
  have c6: "process_excel_file example_pandas ?wb' = Inl (SheetNotFoundError Diagnosis)"
    by (rule T [THEN conjunct2, THEN conjunct2, THEN conjunct2, THEN conjunct2,
          THEN conjunct2, THEN conjunct1, THEN mp, OF h3])
  have c8: "resolve_sheets ?names = Inr (''Patient_Details'', ''Diag 2020'')"
    by (rule T [THEN conjunct2, THEN conjunct2, THEN conjunct2, THEN conjunct2,
          THEN conjunct2, THEN conjunct2, THEN conjunct2, THEN mp, OF h4])
  show ?thesis
    by (intro conjI) (rule first second c5 c6 c8)+
qed

section \<open>Facts about tables\<close>

lemma col_index_less: "col_index c cs = Some i \<Longrightarrow> i < length cs"
  by (induction cs arbitrary: i) (auto split: if_splits)

lemma col_index_nth: "col_index c cs = Some i \<Longrightarrow> cs ! i = c"
  by (induction cs arbitrary: i) (auto split: if_splits)

lemma col_index_None_iff: "col_index c cs = None \<longleftrightarrow> c \<notin> set cs"
  by (induction cs) auto

lemma col_index_Some_ex: "c \<in> set cs \<Longrightarrow> \<exists>i. col_index c cs = Some i"
  using col_index_None_iff [of c cs] by (cases "col_index c cs") auto

lemma col_index_rename:
  "new \<notin> set cs \<Longrightarrow> col_index new (map (\<lambda>c. if c = old then new else c) cs) = col_index old cs"
  by (induction cs) auto

lemma col_index_rename_other:
  "c \<noteq> old \<Longrightarrow> c \<noteq> new \<Longrightarrow>
   col_index c (map (\<lambda>x. if x = old then new else x) cs) = col_index c cs"
  by (induction cs) auto

lemma cols_map_column [simp]: "cols (map_column c f t) = cols t"
  by (simp add: map_column_def split: option.splits)

lemma length_rows_map_column [simp]: "length (rows (map_column c f t)) = length (rows t)"
  by (simp add: map_column_def split: option.splits)

lemma wf_table_map_column: "wf_table t \<Longrightarrow> wf_table (map_column c f t)"
  by (auto simp: wf_table_def map_column_def list_all_iff split: option.splits)

lemma rows_rename [simp]: "rows (rename old new t) = rows t"
  by (simp add: rename_def)

lemma cols_rename: "cols (rename old new t) = map (\<lambda>c. if c = old then new else c) (cols t)"
  by (simp add: rename_def)

lemma column_map_column_same:
  assumes "wf_table t"
  shows "column (map_column c f t) c = map f (column t c)"
proof (cases "col_index c (cols t)")
  case None
  then show ?thesis by (simp add: column_def map_column_def)
next
  case (Some i)
  have "\<And>r. r \<in> set (rows t) \<Longrightarrow> i < length r"
    using assms col_index_less [OF Some] by (auto simp: wf_table_def list_all_iff)
  then show ?thesis
    using Some by (simp add: column_def map_column_def cell_at_def)
qed

lemma column_map_column_other:
  assumes "c' \<noteq> c"
  shows "column (map_column c f t) c' = column t c'"
proof (cases "col_index c (cols t)")
  case None
  then show ?thesis by (simp add: map_column_def)
next
  case (Some i)
  show ?thesis
  proof (cases "col_index c' (cols t)")
    case None
    then show ?thesis by (simp add: column_def)
  next
    case (Some j)
    have "j \<noteq> i"
      using col_index_nth [OF Some] col_index_nth [OF \<open>col_index c (cols t) = Some i\<close>] assms
      by auto
    then show ?thesis
      using Some \<open>col_index c (cols t) = Some i\<close>
      by (simp add: column_def map_column_def cell_at_def)
  qed
qed

lemma column_rename_new:
  "new \<notin> set (cols t) \<Longrightarrow> column (rename old new t) new = column t old"
  by (simp add: column_def cols_rename col_index_rename split: option.splits)

lemma column_rename_other:
  "c \<noteq> old \<Longrightarrow> c \<noteq> new \<Longrightarrow> column (rename old new t) c = column t c"
  by (simp add: column_def cols_rename col_index_rename_other split: option.splits)

section \<open>Age: range check and column choice\<close>

lemma find_age_column_not_AGE:
  "find_age_column columns = Some c \<Longrightarrow> c \<noteq> ''AGE'' \<Longrightarrow> ''AGE'' \<notin> set columns"
  by (auto simp: find_age_column_def split: if_splits)

lemma normalize_age_cases:
  "normalize_age P c =
     (case to_numeric P c of
        None \<Rightarrow> Null
      | Some x \<Rightarrow> if x < 0 \<or> 150 < x then Null else FloatV x)"
  by (simp add: normalize_age_def coerce_numeric_def split: option.splits)

lemma column_process_age_column:
  assumes "wf_table df" and "find_age_column (cols df) = Some age_col"
  shows "column (process_age_column P df) ''AGE'' = map (normalize_age P) (column df age_col)"
proof -
  let ?df2 = "map_column age_col age_range_check (map_column age_col (coerce_numeric P) df)"
  have c2: "column ?df2 age_col = map (normalize_age P) (column df age_col)"
    using assms(1)
    by (simp add: column_map_column_same wf_table_map_column normalize_age_def comp_def)
  show ?thesis
  proof (cases "age_col = ''AGE''")
    case True
    then show ?thesis using assms(2) c2 by (simp add: process_age_column_def)
  next
    case False
    then have "''AGE'' \<notin> set (cols ?df2)"
      using find_age_column_not_AGE [OF assms(2)] by simp
    then have "column (rename age_col ''AGE'' ?df2) ''AGE'' = column ?df2 age_col"
      by (rule column_rename_new)
    then show ?thesis using assms(2) c2 False by (simp add: process_age_column_def)
  qed
qed

text \<open>
  C4. In a table with distinct column names whose age column is found, the column
  that ends up named AGE holds, cell by cell, the normalised value of the chosen
  column. A cell that \<open>pd.to_numeric\<close> does not read as a number becomes null; a
  number below 0 or above 150 becomes null; a number in [0, 150] is kept with its
  value.
\<close>

theorem age_normalization:
  "(wf_table df \<and> find_age_column (cols df) = Some age_col \<longrightarrow>
      column (process_age_column P df) ''AGE'' = map (normalize_age P) (column df age_col))
   \<and> (to_numeric P c = None \<longrightarrow> normalize_age P c = Null)
   \<and> (to_numeric P c = Some x \<and> (x < 0 \<or> 150 < x) \<longrightarrow> normalize_age P c = Null)
   \<and> (to_numeric P c = Some x \<and> 0 \<le> x \<and> x \<le> 150 \<longrightarrow> normalize_age P c = FloatV x)"
  by (auto simp: column_process_age_column normalize_age_cases)

theorem age_normalization_witness:
  "column (process_age_column example_pandas age_example) ''AGE''
     = [FloatV 34, Null, Null, Null, FloatV 150]
   \<and> normalize_age example_pandas (StrV ''n/a'') = Null
   \<and> normalize_age example_pandas (IntV 200) = Null
   \<and> normalize_age example_pandas (StrV ''34'') = FloatV 34"
proof -
  have h1: "wf_table age_example \<and> find_age_column (cols age_example) = Some ''PATIENT AGE''"
    by code_simp
  have h2: "to_numeric example_pandas (StrV ''n/a'') = None"
    by code_simp
  have h3: "to_numeric example_pandas (IntV 200) = Some 200 \<and> ((200::real) < 0 \<or> 150 < (200::real))"
    by simp
  have h4: "to_numeric example_pandas (StrV ''34'') = Some 34 \<and> 0 \<le> (34::real) \<and> (34::real) \<le> 150"
    by code_simp
  have col: "map (normalize_age example_pandas) (column age_example ''PATIENT AGE'')
               = [FloatV 34, Null, Null, Null, FloatV 150]"
    by code_simp
  have c1: "column (process_age_column example_pandas age_example) ''AGE''
              = map (normalize_age example_pandas) (column age_example ''PATIENT AGE'')"
    by (rule age_normalization [THEN conjunct1, THEN mp, OF h1])
  have c2: "normalize_age example_pandas (StrV ''n/a'') = Null"
    by (rule age_normalization [THEN conjunct2, THEN conjunct1, THEN mp, OF h2])
  have c3: "normalize_age example_pandas (IntV 200) = Null"
    by (rule age_normalization [THEN conjunct2, THEN conjunct2, THEN conjunct1, THEN mp, OF h3])
  have c4: "normalize_age example_pandas (StrV ''34'') = FloatV 34"
    by (rule age_normalization [THEN conjunct2, THEN conjunct2, THEN conjunct2, THEN mp, OF h4])
  show ?thesis
    using c1 col c2 c3 c4 by (simp only: simp_thms)
qed

lemma filter_head_find: "(case filter Q xs of [] \<Rightarrow> None | x # _ \<Rightarrow> Some x) = List.find Q xs"
  by (induction xs) auto

lemma find_age_column_find:
  "find_age_column columns =
     (if ''AGE'' \<in> set columns then Some ''AGE''
      else (case List.find (\<lambda>c. upper c = ''AGE'' \<or> endswith (upper c) '' AGE'') columns of
              Some c \<Rightarrow> Some c
            | None \<Rightarrow> List.find (\<lambda>c. contains ''AGE'' (upper c) \<and> \<not> contains ''TRIAGE'' (upper c))
                        columns))"
proof -
  let ?A = "\<lambda>c. upper c = ''AGE'' \<or> endswith (upper c) '' AGE''"
  let ?B = "\<lambda>c. contains ''AGE'' (upper c) \<and> \<not> contains ''TRIAGE'' (upper c)"
  have a: "filter ?A columns = [] \<Longrightarrow> List.find ?A columns = None"
    by (simp add: find_None_iff filter_empty_conv)
  have b: "filter ?A columns \<noteq> [] \<Longrightarrow>
           (case filter ?A columns of [] \<Rightarrow> None | x # _ \<Rightarrow> Some x) = List.find ?A columns
           \<and> List.find ?A columns \<noteq> None"
    by (auto simp: filter_head_find find_None_iff filter_empty_conv)
  show ?thesis
  proof (cases "filter ?A columns = []")
    case True
    then show ?thesis
      using a filter_head_find [of ?B columns]
      by (simp add: find_age_column_def)
  next
    case False
    then show ?thesis
      using b by (auto simp: find_age_column_def Let_def)
  qed
qed

lemma find_age_column_mem: "find_age_column columns = Some c \<Longrightarrow> c \<in> set columns"
  by (auto simp: find_age_column_find split: if_splits option.splits dest: find_Some_iff [THEN iffD1])

lemma find_age_column_sat:
  "find_age_column columns = Some c \<Longrightarrow>
     c = ''AGE'' \<or> upper c = ''AGE'' \<or> endswith (upper c) '' AGE''
     \<or> (contains ''AGE'' (upper c) \<and> \<not> contains ''TRIAGE'' (upper c))"
  by (auto simp: find_age_column_find find_Some_iff split: if_splits option.splits)

lemma triage_level_not_age: "find_age_column columns \<noteq> Some ''TRIAGE LEVEL''"
proof
  assume "find_age_column columns = Some ''TRIAGE LEVEL''"
  from find_age_column_sat [OF this]
  show False by code_simp
qed

lemma cols_process_age_column:
  "cols (process_age_column P df) =
     (case find_age_column (cols df) of
        None \<Rightarrow> cols df
      | Some c \<Rightarrow> map (\<lambda>x. if x = c then ''AGE'' else x) (cols df))"
proof (cases "find_age_column (cols df)")
  case None
  then show ?thesis by (simp add: process_age_column_def)
next
  case (Some c)
  have "map (\<lambda>x. if x = ''AGE'' then ''AGE'' else x) (cols df) = cols df"
    by (intro map_idI) auto
  then show ?thesis
    using Some by (auto simp: process_age_column_def Let_def cols_rename)
qed

lemma zip_same_no_change: "filter (\<lambda>(a, b). a \<noteq> b) (zip xs xs) = []"
  by (induction xs) auto

lemma renamed_count:
  "distinct xs \<Longrightarrow> length (filter (\<lambda>(a, b). a \<noteq> b) (zip xs (map (\<lambda>x. if x = c then n else x) xs))) \<le> 1"
proof (induction xs)
  case Nil
  then show ?case by simp
next
  case (Cons a xs)
  show ?case
  proof (cases "a = c")
    case True
    then have "c \<notin> set xs" using Cons.prems by simp
    then have "map (\<lambda>x. if x = c then n else x) xs = xs"
      by (intro map_idI) auto
    then have "filter (\<lambda>(a, b). a \<noteq> b) (zip xs (map (\<lambda>x. if x = c then n else x) xs)) = []"
      by (simp add: zip_same_no_change)
    then show ?thesis by simp
  next
    case False
    then show ?thesis using Cons by simp
  qed
qed

text \<open>
  C6. On column names that are already uppercase, as a cleaned table has them, the age
  column is the column named AGE when there is one; else the first column, in column
  order, whose name is AGE or ends with " AGE"; else the first column whose name
  contains AGE and does not contain TRIAGE. A column named TRIAGE LEVEL is never
  chosen. The chosen column, and no other, is renamed to AGE: when a column is chosen
  the result has a column AGE, and with distinct names at most one name changes.
\<close>

theorem age_column_selection:
  "((\<forall>c \<in> set columns. upper c = c) \<longrightarrow>
      find_age_column columns =
        (if ''AGE'' \<in> set columns then Some ''AGE''
         else (case List.find (\<lambda>c. c = ''AGE'' \<or> endswith c '' AGE'') columns of
                 Some c \<Rightarrow> Some c
               | None \<Rightarrow> List.find (\<lambda>c. contains ''AGE'' c \<and> \<not> contains ''TRIAGE'' c) columns)))
   \<and> find_age_column columns \<noteq> Some ''TRIAGE LEVEL''
   \<and> cols (process_age_column P df) =
        (case find_age_column (cols df) of
           None \<Rightarrow> cols df
         | Some c \<Rightarrow> map (\<lambda>x. if x = c then ''AGE'' else x) (cols df))
   \<and> (find_age_column (cols df) \<noteq> None \<longrightarrow> ''AGE'' \<in> set (cols (process_age_column P df)))
   \<and> (distinct (cols df) \<longrightarrow>
        length (filter (\<lambda>(a, b). a \<noteq> b) (zip (cols df) (cols (process_age_column P df)))) \<le> 1)"
proof (intro conjI impI)
  show "find_age_column columns =
        (if ''AGE'' \<in> set columns then Some ''AGE''
         else (case List.find (\<lambda>c. c = ''AGE'' \<or> endswith c '' AGE'') columns of
                 Some c \<Rightarrow> Some c
               | None \<Rightarrow> List.find (\<lambda>c. contains ''AGE'' c \<and> \<not> contains ''TRIAGE'' c) columns))"
    if u: "\<forall>c \<in> set columns. upper c = c"
  proof -
    have 1: "List.find (\<lambda>c. upper c = ''AGE'' \<or> endswith (upper c) '' AGE'') columns
             = List.find (\<lambda>c. c = ''AGE'' \<or> endswith c '' AGE'') columns"
      using u by (intro find_cong) auto
    have 2: "List.find (\<lambda>c. contains ''AGE'' (upper c) \<and> \<not> contains ''TRIAGE'' (upper c)) columns
             = List.find (\<lambda>c. contains ''AGE'' c \<and> \<not> contains ''TRIAGE'' c) columns"
      using u by (intro find_cong) auto
    show ?thesis
      unfolding find_age_column_find 1 2 ..
  qed
  show "find_age_column columns \<noteq> Some ''TRIAGE LEVEL''"
    by (rule triage_level_not_age)
  show "cols (process_age_column P df) =
        (case find_age_column (cols df) of
           None \<Rightarrow> cols df
         | Some c \<Rightarrow> map (\<lambda>x. if x = c then ''AGE'' else x) (cols df))"
    by (rule cols_process_age_column)
  show "''AGE'' \<in> set (cols (process_age_column P df))"
    if "find_age_column (cols df) \<noteq> None"
  proof -
    from that obtain c where c: "find_age_column (cols df) = Some c" by auto
    from find_age_column_mem [OF c] show ?thesis
      by (auto simp: cols_process_age_column c)
  qed
  show "length (filter (\<lambda>(a, b). a \<noteq> b) (zip (cols df) (cols (process_age_column P df)))) \<le> 1"
    if "distinct (cols df)"
    using that renamed_count [of "cols df"]
    by (cases "find_age_column (cols df)") (simp_all add: cols_process_age_column zip_same_no_change)
qed

theorem age_column_selection_witness:
  "find_age_column [''REGISTRY ID'', ''TRIAGE LEVEL'', ''STAGE'', ''PATIENT AGE''] = Some ''PATIENT AGE''
   \<and> ''AGE'' \<in> set (cols (process_age_column example_pandas age_example))
   \<and> length (filter (\<lambda>(a, b). a \<noteq> b)
         (zip (cols age_example) (cols (process_age_column example_pandas age_example)))) \<le> 1"
proof -
  let ?columns = "[''REGISTRY ID'', ''TRIAGE LEVEL'', ''STAGE'', ''PATIENT AGE'']"
  note T = age_column_selection [of ?columns example_pandas age_example]
  have h1: "\<forall>c \<in> set ?columns. upper c = c"
    by code_simp
  have h4: "find_age_column (cols age_example) \<noteq> None"
    by code_simp
  have h5: "distinct (cols age_example)"
    by code_simp
  have rhs: "(if ''AGE'' \<in> set ?columns then Some ''AGE''
         else (case List.find (\<lambda>c. c = ''AGE'' \<or> endswith c '' AGE'') ?columns of
                 Some c \<Rightarrow> Some c
               | None \<Rightarrow> List.find (\<lambda>c. contains ''AGE'' c \<and> \<not> contains ''TRIAGE'' c) ?columns))
             = Some ''PATIENT AGE''"
    by code_simp
  have c1: "find_age_column ?columns = Some ''PATIENT AGE''"
    using T [THEN conjunct1, THEN mp, OF h1] rhs by (simp only:)
  have c4: "''AGE'' \<in> set (cols (process_age_column example_pandas age_example))"
    by (rule T [THEN conjunct2, THEN conjunct2, THEN conjunct2, THEN conjunct1, THEN mp, OF h4])
  have c5: "length (filter (\<lambda>(a, b). a \<noteq> b)
         (zip (cols age_example) (cols (process_age_column example_pandas age_example)))) \<le> 1"
    by (rule T [THEN conjunct2, THEN conjunct2, THEN conjunct2, THEN conjunct2, THEN mp, OF h5])
  show ?thesis
    by (intro conjI) (rule c1 c4 c5)+
qed

section \<open>Gender: canonical forms\<close>


















section \<open>Join engine: rows of the left join\<close>

lemma merge_tables_Some_iff:
  "merge_tables left right = Some merged \<longleftrightarrow>
     (\<exists>kl kr. col_index ''REGISTRY ID'' (cols left) = Some kl
        \<and> col_index ''REGISTRY ID'' (cols right) = Some kr
        \<and> merged = \<lparr>cols = merged_columns ''REGISTRY ID'' kr (cols left) (cols right),
                     rows = left_join_rows kl kr (length (cols right) - 1) (rows left) (rows right)\<rparr>
        \<and> distinct (cols merged))"
  by (auto simp: merge_tables_def Let_def split: option.splits)

lemma merged_columns_nonempty:
  "col_index key lcols = Some kl \<Longrightarrow> merged_columns key kr lcols rcols \<noteq> []"
  by (cases lcols) (auto simp: merged_columns_def)

lemma left_join_rows_empty_iff: "left_join_rows kl kr n lrows rrows = [] \<longleftrightarrow> lrows = []"
  by (cases lrows) (auto simp: left_join_rows_def split: list.splits)

lemma merge_data_Inr_iff:
  "(\<exists>merged report. merge_data patient_data diagnosis_data = Inr (merged, report)) \<longleftrightarrow>
     merge_tables diagnosis_data patient_data \<noteq> None \<and> rows diagnosis_data \<noteq> []"
proof (cases "merge_tables diagnosis_data patient_data")
  case None
  then show ?thesis by (simp add: merge_data_def)
next
  case (Some m)
  then obtain kl kr where k: "col_index ''REGISTRY ID'' (cols diagnosis_data) = Some kl"
    and m: "m = \<lparr>cols = merged_columns ''REGISTRY ID'' kr (cols diagnosis_data) (cols patient_data),
                  rows = left_join_rows kl kr (length (cols patient_data) - 1)
                           (rows diagnosis_data) (rows patient_data)\<rparr>"
    by (auto simp: merge_tables_Some_iff)
  have "empty_table m \<longleftrightarrow> rows diagnosis_data = []"
    using merged_columns_nonempty [OF k] by (simp add: m empty_table_def left_join_rows_empty_iff)
  then show ?thesis
    using Some by (auto simp: merge_data_def Let_def)
qed

lemma merge_data_Inr_merged:
  "merge_data patient_data diagnosis_data = Inr (merged, report) \<Longrightarrow>
     merge_tables diagnosis_data patient_data = Some merged"
  by (auto simp: merge_data_def Let_def split: option.splits if_splits)

lemma filter_key_distinct:
  "distinct (map f xs) \<Longrightarrow> length (filter (\<lambda>x. f x = v) xs) \<le> 1"
proof (induction xs)
  case Nil
  then show ?case by simp
next
  case (Cons a xs)
  show ?case
  proof (cases "f a = v")
    case True
    then have "v \<notin> f ` set xs" using Cons.prems by auto
    then have "filter (\<lambda>x. f x = v) xs = []"
      by (auto simp: filter_empty_conv)
    then show ?thesis using True by simp
  next
    case False
    then show ?thesis using Cons by simp
  qed
qed

lemma left_join_rows_distinct:
  assumes "distinct (map (\<lambda>r. cell_at r kr) rrows)"
  shows "left_join_rows kl kr n lrows rrows =
           map (\<lambda>l. l @ right_part kr n rrows (cell_at l kl)) lrows"
proof -
  have one: "(case filter (\<lambda>r. cell_at r kr = k) rrows of
                [] \<Rightarrow> [l @ replicate n Null]
              | m # ms \<Rightarrow> map (\<lambda>r. l @ drop_at kr r) (m # ms))
             = [l @ right_part kr n rrows k]" for l k
  proof (cases "filter (\<lambda>r. cell_at r kr = k) rrows")
    case Nil
    then have "List.find (\<lambda>r. cell_at r kr = k) rrows = None"
      by (simp add: find_None_iff filter_empty_conv)
    then show ?thesis using Nil by (simp add: right_part_def)
  next
    case (Cons m ms)
    have "length (filter (\<lambda>r. cell_at r kr = k) rrows) \<le> 1"
      using assms by (rule filter_key_distinct)
    then have ms: "ms = []" using Cons by simp
    have "List.find (\<lambda>r. cell_at r kr = k) rrows = Some m"
      using Cons filter_head_find [of "\<lambda>r. cell_at r kr = k" rrows] by simp
    then show ?thesis using Cons ms by (simp add: right_part_def)
  qed
  show ?thesis
    unfolding left_join_rows_def by (simp add: one)
qed

lemma right_part_unmatched:
  "k \<notin> set (map (\<lambda>r. cell_at r kr) rrows) \<Longrightarrow> right_part kr n rrows k = replicate n Null"
proof -
  assume "k \<notin> set (map (\<lambda>r. cell_at r kr) rrows)"
  then have "List.find (\<lambda>r. cell_at r kr = k) rrows = None"
    by (auto simp: find_None_iff)
  then show ?thesis by (simp add: right_part_def)
qed

lemma column_key:
  "col_index c (cols t) = Some i \<Longrightarrow> column t c = map (\<lambda>r. cell_at r i) (rows t)"
  by (simp add: column_def)

lemma wf_table_row_length: "wf_table t \<Longrightarrow> r \<in> set (rows t) \<Longrightarrow> length r = length (cols t)"
  by (simp add: wf_table_def list_all_iff)

lemma example_pipeline:
  "process_excel_file example_pandas example_workbook
     = Inr (patient_example, diagnosis_example, merged_example)"
  by code_simp

lemma col_index_append: "c \<in> set xs \<Longrightarrow> col_index c (xs @ ys) = col_index c xs"
  by (induction xs) auto

lemma col_index_map_key:
  "f c = c \<Longrightarrow> (\<And>x. x \<noteq> c \<Longrightarrow> f x \<noteq> c) \<Longrightarrow> col_index c (map f xs) = col_index c xs"
  by (induction xs) auto

lemma diag_suffix_not_key: "c @ ''_DIAG'' \<noteq> ''REGISTRY ID''"
proof
  assume "c @ ''_DIAG'' = ''REGISTRY ID''"
  then have "last (c @ ''_DIAG'') = last ''REGISTRY ID''" by simp
  then show False by simp
qed

lemma col_index_merged_columns:
  assumes "col_index ''REGISTRY ID'' lcols = Some kl"
  shows "col_index ''REGISTRY ID'' (merged_columns ''REGISTRY ID'' kr lcols rcols) = Some kl"
proof -
  let ?f = "\<lambda>c. if c \<noteq> ''REGISTRY ID'' \<and> c \<in> set rcols then c @ ''_DIAG'' else c"
  have mem: "''REGISTRY ID'' \<in> set lcols"
    using assms col_index_None_iff [of "''REGISTRY ID''" lcols] by auto
  have "col_index ''REGISTRY ID'' (map ?f lcols) = col_index ''REGISTRY ID'' lcols"
    by (rule col_index_map_key) (auto simp: diag_suffix_not_key)
  moreover have "''REGISTRY ID'' \<in> set (map ?f lcols)"
    using mem by force
  ultimately show ?thesis
    using assms by (simp add: merged_columns_def col_index_append)
qed

lemma left_join_rows_mem:
  assumes "r \<in> set (left_join_rows kl kr n lrows rrows)"
  shows "\<exists>l \<in> set lrows.
           (cell_at l kl \<notin> (\<lambda>m. cell_at m kr) ` set rrows \<and> r = l @ replicate n Null)
           \<or> (\<exists>m \<in> set rrows. cell_at m kr = cell_at l kl \<and> r = l @ drop_at kr m)"
proof -
  from assms obtain l where l: "l \<in> set lrows"
    and r: "r \<in> set (case filter (\<lambda>m. cell_at m kr = cell_at l kl) rrows of
                        [] \<Rightarrow> [l @ replicate n Null]
                      | m # ms \<Rightarrow> map (\<lambda>m. l @ drop_at kr m) (m # ms))"
    by (auto simp: left_join_rows_def)
  show ?thesis
  proof (cases "filter (\<lambda>m. cell_at m kr = cell_at l kl) rrows")
    case Nil
    then have "cell_at l kl \<notin> (\<lambda>m. cell_at m kr) ` set rrows"
      by (auto simp: filter_empty_conv)
    then show ?thesis using l r Nil by auto
  next
    case (Cons m ms)
    then obtain m' where "m' \<in> set (filter (\<lambda>m. cell_at m kr = cell_at l kl) rrows)"
      and "r = l @ drop_at kr m'"
      using r by auto
    then show ?thesis using l by auto
  qed
qed

lemma length_left_join_rows_ge: "length lrows \<le> length (left_join_rows kl kr n lrows rrows)"
proof (induction lrows)
  case Nil
  then show ?case by (simp add: left_join_rows_def)
next
  case (Cons l ls)
  have "left_join_rows kl kr n (l # ls) rrows
          = (case filter (\<lambda>r. cell_at r kr = cell_at l kl) rrows of
               [] \<Rightarrow> [l @ replicate n Null]
             | m # ms \<Rightarrow> map (\<lambda>r. l @ drop_at kr r) (m # ms))
            @ left_join_rows kl kr n ls rrows"
    by (simp add: left_join_rows_def)
  then show ?case
    using Cons by (simp split: list.splits)
qed

text \<open>
  C1, as amended. When the merge itself succeeds (both tables have the identifier
  column and the suffixes leave no two columns of one name) and the diagnosis table
  has distinct column names, rows of the right length and at least one row, the join
  returns a table with at least as many rows as the diagnosis table, and every row of
  it whose identifier is not in the patient table has nulls only on the patient side.
  When, moreover, the identifiers of the patient table are pairwise distinct, the
  merged table has exactly as many rows as the diagnosis table, and its rows are the
  diagnosis rows in their order, each extended on the right.
\<close>

theorem left_join_row_count:
  assumes wf: "wf_table diagnosis_data"
    and ok: "merge_tables diagnosis_data patient_data \<noteq> None"
    and nonempty: "rows diagnosis_data \<noteq> []"
  shows "\<exists>merged report.
           merge_data patient_data diagnosis_data = Inr (merged, report)
           \<and> length (rows diagnosis_data) \<le> length (rows merged)
           \<and> (\<forall>i < length (rows merged).
                 column merged ''REGISTRY ID'' ! i \<notin> set (column patient_data ''REGISTRY ID'') \<longrightarrow>
                 drop (length (cols diagnosis_data)) (rows merged ! i)
                   = replicate (length (cols patient_data) - 1) Null)
           \<and> (distinct (column patient_data ''REGISTRY ID'') \<longrightarrow>
                 length (rows merged) = length (rows diagnosis_data)
                 \<and> map (take (length (cols diagnosis_data))) (rows merged) = rows diagnosis_data)"
proof -
  from ok nonempty obtain merged report
    where md: "merge_data patient_data diagnosis_data = Inr (merged, report)"
    using merge_data_Inr_iff [of patient_data diagnosis_data] by blast
  let ?n = "length (cols patient_data) - 1"
  from merge_data_Inr_merged [OF md] obtain kl kr
    where kl: "col_index ''REGISTRY ID'' (cols diagnosis_data) = Some kl"
      and kr: "col_index ''REGISTRY ID'' (cols patient_data) = Some kr"
      and cm: "cols merged = merged_columns ''REGISTRY ID'' kr (cols diagnosis_data) (cols patient_data)"
      and rm: "rows merged = left_join_rows kl kr ?n (rows diagnosis_data) (rows patient_data)"
    by (auto simp: merge_tables_Some_iff)
  have keys: "column patient_data ''REGISTRY ID'' = map (\<lambda>r. cell_at r kr) (rows patient_data)"
    using kr by (rule column_key)
  have mkeys: "column merged ''REGISTRY ID'' = map (\<lambda>r. cell_at r kl) (rows merged)"
    using col_index_merged_columns [OF kl] by (intro column_key) (simp add: cm)
  have ge: "length (rows diagnosis_data) \<le> length (rows merged)"
    unfolding rm by (rule length_left_join_rows_ge)
  have unmatched: "drop (length (cols diagnosis_data)) (rows merged ! i) = replicate ?n Null"
    if i: "i < length (rows merged)"
      and no: "column merged ''REGISTRY ID'' ! i \<notin> set (column patient_data ''REGISTRY ID'')"
    for i
  proof -
    let ?r = "rows merged ! i"
    have "?r \<in> set (left_join_rows kl kr ?n (rows diagnosis_data) (rows patient_data))"
      using i rm by (metis nth_mem)
    from left_join_rows_mem [OF this] obtain l where l: "l \<in> set (rows diagnosis_data)"
      and cases: "(cell_at l kl \<notin> (\<lambda>m. cell_at m kr) ` set (rows patient_data)
                    \<and> ?r = l @ replicate ?n Null)
                  \<or> (\<exists>m \<in> set (rows patient_data). cell_at m kr = cell_at l kl \<and> ?r = l @ drop_at kr m)"
      by blast
    have len: "length l = length (cols diagnosis_data)"
      using wf_table_row_length [OF wf l] .
    have "kl < length l"
      using col_index_less [OF kl] len by simp
    moreover have "\<exists>x. ?r = l @ x"
      using cases by auto
    ultimately have "cell_at ?r kl = cell_at l kl"
      by (auto simp: cell_at_def nth_append)
    then have "cell_at l kl \<notin> (\<lambda>m. cell_at m kr) ` set (rows patient_data)"
      using no i by (simp add: mkeys keys)
    then have "?r = l @ replicate ?n Null"
      using cases by (metis image_eqI)
    then show ?thesis using len by simp
  qed
  have same: "length (rows merged) = length (rows diagnosis_data)
              \<and> map (take (length (cols diagnosis_data))) (rows merged) = rows diagnosis_data"
    if uniq: "distinct (column patient_data ''REGISTRY ID'')"
  proof -
    have rows_eq: "rows merged =
        map (\<lambda>l. l @ right_part kr ?n (rows patient_data) (cell_at l kl)) (rows diagnosis_data)"
      using uniq unfolding rm keys by (rule left_join_rows_distinct)
    have "map (take (length (cols diagnosis_data))) (rows merged) = rows diagnosis_data"
      unfolding rows_eq using wf_table_row_length [OF wf]
      by (simp add: comp_def map_idI)
    then show ?thesis by (simp add: rows_eq)
  qed
  show ?thesis
    using md ge unmatched same by blast
qed

theorem left_join_row_count_witness:
  "\<exists>merged report.
     merge_data patient_example diagnosis_example = Inr (merged, report)
     \<and> length (rows diagnosis_example) \<le> length (rows merged)
     \<and> (\<forall>i < length (rows merged).
           column merged ''REGISTRY ID'' ! i \<notin> set (column patient_example ''REGISTRY ID'') \<longrightarrow>
           drop (length (cols diagnosis_example)) (rows merged ! i)
             = replicate (length (cols patient_example) - 1) Null)
     \<and> length (rows merged) = length (rows diagnosis_example)
     \<and> map (take (length (cols diagnosis_example))) (rows merged) = rows diagnosis_example"
proof -
  have h1: "wf_table diagnosis_example"
    by code_simp
  have h2: "merge_tables diagnosis_example patient_example \<noteq> None"
    by code_simp
  have h3: "rows diagnosis_example \<noteq> []"
    by code_simp
  have h4: "distinct (column patient_example ''REGISTRY ID'')"
    by code_simp
  from left_join_row_count [OF h1 h2 h3] h4 show ?thesis
    by blast
qed

text \<open>
  C1, as stated, fails: the workbook with two patient rows for one identifier is
  processed without error, and the merged table has three rows for two diagnosis rows.
\<close>

theorem left_join_row_count_counterexample:
  "process_excel_file example_pandas duplicate_workbook
     = Inr (duplicate_patient_example, diagnosis_example, duplicate_merged_example)
   \<and> length (rows duplicate_merged_example) \<noteq> length (rows diagnosis_example)"
  by code_simp

lemma empty_join_iff:
  "merge_data patient_data diagnosis_data = Inl EmptyJoinResult \<longleftrightarrow>
     merge_tables diagnosis_data patient_data \<noteq> None \<and> rows diagnosis_data = []"
  using merge_data_Inr_iff [of patient_data diagnosis_data]
  by (cases "merge_tables diagnosis_data patient_data")
     (auto simp: merge_data_def Let_def split: if_splits)

text \<open>
  C2. The code at a diagnosis table that shares no identifier with the patient table:
  the join returns a table and a report, not the empty-join error.
\<close>

theorem merge_disjoint_identifiers:
  "set (column disjoint_diagnosis_example ''REGISTRY ID'')
     \<inter> set (column patient_example ''REGISTRY ID'') = {}
   \<and> merge_data patient_example disjoint_diagnosis_example = Inr (disjoint_merged_example, 1, 1)"
  by code_simp

text \<open>
  C3. The code at the example of the specification: the report is 2 matched of 2,
  while one row of the merged table has a patient-side value that is not null.
\<close>

theorem match_report_example:
  "merge_data patient_example diagnosis_example = Inr (merged_example, 2, 2)
   \<and> length (filter (\<lambda>r. list_ex (\<lambda>c. c \<noteq> Null) (drop (length (cols diagnosis_example)) r))
        (rows merged_example)) = 1"
  by code_simp

section \<open>Validation result\<close>

lemma count_true_pos_iff: "0 < count_true bs \<longleftrightarrow> True \<in> set bs"
  by (auto simp: count_true_def filter_empty_conv)

lemma duplicated_pos_iff: "0 < count_true (duplicated xs) \<longleftrightarrow> \<not> distinct xs"
proof -
  have "True \<in> set (duplicated xs) \<longleftrightarrow> (\<exists>i < length xs. xs ! i \<in> set (take i xs))"
    by (auto simp: duplicated_def)
  also have "\<dots> \<longleftrightarrow> (\<exists>i < length xs. \<exists>j < i. xs ! j = xs ! i)"
  proof -
    have "xs ! i \<in> set (take i xs) \<longleftrightarrow> (\<exists>j < i. xs ! j = xs ! i)" if "i < length xs" for i
    proof -
      have eq: "set (take i xs) = nth xs ` {0 ..< i}"
        using that by (simp add: nth_image)
      show ?thesis
      proof
        assume "xs ! i \<in> set (take i xs)"
        then show "\<exists>j < i. xs ! j = xs ! i"
          unfolding eq by auto
      next
        assume "\<exists>j < i. xs ! j = xs ! i"
        then obtain j where j: "j < i" "xs ! j = xs ! i"
          by blast
        have "xs ! j \<in> nth xs ` {0 ..< i}"
          using j(1) by simp
        then show "xs ! i \<in> set (take i xs)"
          unfolding eq using j by simp
      qed
    qed
    then show ?thesis by blast
  qed
  also have "\<dots> \<longleftrightarrow> \<not> distinct xs"
  proof
    assume "\<exists>i < length xs. \<exists>j < i. xs ! j = xs ! i"
    then show "\<not> distinct xs"
      by (auto simp: distinct_conv_nth) (metis less_trans nat_neq_iff)
  next
    assume "\<not> distinct xs"
    then obtain i j where ij: "i < length xs" "j < length xs" "i \<noteq> j" "xs ! i = xs ! j"
      by (auto simp: distinct_conv_nth)
    show "\<exists>i < length xs. \<exists>j < i. xs ! j = xs ! i"
    proof (cases "i < j")
      case True
      then show ?thesis using ij by metis
    next
      case False
      then have "j < i" using ij by simp
      then show ?thesis using ij by metis
    qed
  qed
  finally show ?thesis by (simp add: count_true_pos_iff)
qed

text \<open>
  C8, as amended. Without the identifier column the result is invalid with a
  non-empty error list. For a table that is not empty and has the identifier column
  the result is valid with no error, and there is a warning exactly when an
  identifier value repeats. For every table that is not empty the info field has
  exactly the keys for row count, column count, null count, duplicate row count and
  column types, with these values. For an empty table (no rows or no columns) the
  result is invalid with the one error "DataFrame is empty", no warning and an empty
  info field.
\<close>

theorem validate_data_result:
  "(''REGISTRY ID'' \<notin> set (cols df) \<longrightarrow>
      \<not> is_valid (validate_data P df) \<and> errors (validate_data P df) \<noteq> [])
   \<and> (\<not> empty_table df \<and> ''REGISTRY ID'' \<in> set (cols df) \<longrightarrow>
        is_valid (validate_data P df) \<and> errors (validate_data P df) = []
        \<and> (warnings (validate_data P df) \<noteq> [] \<longleftrightarrow> \<not> distinct (column df ''REGISTRY ID'')))
   \<and> (\<not> empty_table df \<longrightarrow>
        dom (info (validate_data P df)) = info_keys
        \<and> info (validate_data P df) ''total_rows'' = Some (Count (length (rows df)))
        \<and> info (validate_data P df) ''total_columns'' = Some (Count (length (cols df)))
        \<and> info (validate_data P df) ''missing_values''
            = Some (Count (length (filter (\<lambda>c. c = Null) (concat (rows df)))))
        \<and> info (validate_data P df) ''duplicate_rows'' = Some (Count (count_true (duplicated (rows df))))
        \<and> info (validate_data P df) ''column_types''
            = Some (ColumnTypes (map (\<lambda>c. (c, dtype_of P (column df c))) (cols df))))
   \<and> (empty_table df \<longrightarrow>
        validate_data P df
          = \<lparr>is_valid = False, errors = [''DataFrame is empty''], warnings = [], info = Map.empty\<rparr>)"
proof (intro conjI impI)
  show "\<not> is_valid (validate_data P df)" if "''REGISTRY ID'' \<notin> set (cols df)"
    using that by (simp add: validate_data_def Let_def)
  show "errors (validate_data P df) \<noteq> []" if "''REGISTRY ID'' \<notin> set (cols df)"
    using that by (simp add: validate_data_def Let_def)
  show "is_valid (validate_data P df)" if "\<not> empty_table df \<and> ''REGISTRY ID'' \<in> set (cols df)"
    using that by (simp add: validate_data_def Let_def)
  show "errors (validate_data P df) = []" if "\<not> empty_table df \<and> ''REGISTRY ID'' \<in> set (cols df)"
    using that by (simp add: validate_data_def Let_def)
  show "warnings (validate_data P df) \<noteq> [] \<longleftrightarrow> \<not> distinct (column df ''REGISTRY ID'')"
    if "\<not> empty_table df \<and> ''REGISTRY ID'' \<in> set (cols df)"
    using that duplicated_pos_iff [of "column df ''REGISTRY ID''"]
    by (simp add: validate_data_def Let_def)
  show "dom (info (validate_data P df)) = info_keys" if "\<not> empty_table df"
    using that by (auto simp: validate_data_def Let_def info_keys_def)
  show "info (validate_data P df) ''total_rows'' = Some (Count (length (rows df)))"
    if "\<not> empty_table df"
    using that by (simp add: validate_data_def Let_def)
  show "info (validate_data P df) ''total_columns'' = Some (Count (length (cols df)))"
    if "\<not> empty_table df"
    using that by (simp add: validate_data_def Let_def)
  show "info (validate_data P df) ''missing_values''
            = Some (Count (length (filter (\<lambda>c. c = Null) (concat (rows df)))))"
    if "\<not> empty_table df"
    using that by (simp add: validate_data_def Let_def)
  show "info (validate_data P df) ''duplicate_rows'' = Some (Count (count_true (duplicated (rows df))))"
    if "\<not> empty_table df"
    using that by (simp add: validate_data_def Let_def)
  show "info (validate_data P df) ''column_types''
            = Some (ColumnTypes (map (\<lambda>c. (c, dtype_of P (column df c))) (cols df)))"
    if "\<not> empty_table df"
    using that by (simp add: validate_data_def Let_def)
  show "validate_data P df
          = \<lparr>is_valid = False, errors = [''DataFrame is empty''], warnings = [], info = Map.empty\<rparr>"
    if "empty_table df"
    using that by (simp add: validate_data_def)
qed

theorem validate_data_result_witness:
  "\<not> is_valid (validate_data example_pandas no_identifier_example)
   \<and> errors (validate_data example_pandas no_identifier_example) \<noteq> []
   \<and> is_valid (validate_data example_pandas duplicate_merged_example)
   \<and> errors (validate_data example_pandas duplicate_merged_example) = []
   \<and> warnings (validate_data example_pandas duplicate_merged_example) \<noteq> []
   \<and> dom (info (validate_data example_pandas duplicate_merged_example)) = info_keys
   \<and> validate_data example_pandas no_rows_example
       = \<lparr>is_valid = False, errors = [''DataFrame is empty''], warnings = [], info = Map.empty\<rparr>"
proof -
  note A = validate_data_result [of no_identifier_example example_pandas]
  note B = validate_data_result [of duplicate_merged_example example_pandas]
  note C = validate_data_result [of no_rows_example example_pandas]
  have h1: "''REGISTRY ID'' \<notin> set (cols no_identifier_example)"
    by code_simp
  have h2: "\<not> empty_table duplicate_merged_example
            \<and> ''REGISTRY ID'' \<in> set (cols duplicate_merged_example)"
    by code_simp
  have h3: "\<not> empty_table duplicate_merged_example"
    by code_simp
  have h4: "empty_table no_rows_example"
    by code_simp
  have dup: "\<not> distinct (column duplicate_merged_example ''REGISTRY ID'')"
    by code_simp
  note a = A [THEN conjunct1, THEN mp, OF h1]
  note b = B [THEN conjunct2, THEN conjunct1, THEN mp, OF h2]
  note c = B [THEN conjunct2, THEN conjunct2, THEN conjunct1, THEN mp, OF h3]
  note d = C [THEN conjunct2, THEN conjunct2, THEN conjunct2, THEN mp, OF h4]
  show ?thesis
    using a b c d dup by blast
qed

text \<open>
  C8, as stated, fails: for a table with the identifier column and no rows the info
  field has no row count.
\<close>

theorem validate_data_info_counterexample:
  "info (validate_data example_pandas no_rows_example) ''total_rows'' = None"
  by (simp add: validate_data_def empty_table_def no_rows_example_def)


section \<open>Identifiers before the join\<close>

lemma key_keptI:
  "(\<And>t. column (g t) ''REGISTRY ID'' = column t ''REGISTRY ID'') \<Longrightarrow>
   (\<And>t. length (rows (g t)) = length (rows t)) \<Longrightarrow> key_kept g"
  by (simp add: key_kept_def)

lemma key_kept_column: "key_kept g \<Longrightarrow> column (g t) ''REGISTRY ID'' = column t ''REGISTRY ID''"
  by (simp add: key_kept_def)

lemma key_kept_length: "key_kept g \<Longrightarrow> length (rows (g t)) = length (rows t)"
  by (simp add: key_kept_def)

lemma key_kept_comp: "key_kept f \<Longrightarrow> key_kept g \<Longrightarrow> key_kept (\<lambda>t. f (g t))"
  by (simp add: key_kept_def)

lemma key_kept_map_column: "c \<noteq> ''REGISTRY ID'' \<Longrightarrow> key_kept (map_column c f)"
  by (intro key_keptI) (simp_all add: column_map_column_other)

lemma key_kept_rename:
  "old \<noteq> ''REGISTRY ID'' \<Longrightarrow> new \<noteq> ''REGISTRY ID'' \<Longrightarrow> key_kept (rename old new)"
  by (intro key_keptI) (simp_all add: column_rename_other)

lemma key_kept_fold:
  assumes "\<And>c. c \<in> set cs \<Longrightarrow> key_kept (step c)"
  shows "key_kept (fold step cs)"
  using assms
proof (induction cs)
  case Nil
  then show ?case by (simp add: key_kept_def)
next
  case (Cons c cs)
  have "key_kept (fold step cs)" "key_kept (step c)"
    using Cons by simp_all
  then have "key_kept (\<lambda>t. fold step cs (step c t))"
    by (rule key_kept_comp)
  then show ?case by (simp add: key_kept_def)
qed

lemma key_not_age: "find_age_column columns = Some c \<Longrightarrow> c \<noteq> ''REGISTRY ID''"
proof
  assume "find_age_column columns = Some c" and "c = ''REGISTRY ID''"
  then have "find_age_column columns = Some ''REGISTRY ID''" by simp
  from find_age_column_sat [OF this] show False by code_simp
qed

lemma key_not_gender: "\<not> any_keyword_in [''GENDER'', ''SEX''] (upper ''REGISTRY ID'')"
  by code_simp

lemma key_not_date: "\<not> any_keyword_in date_keywords (upper ''REGISTRY ID'')"
  by code_simp

lemma key_not_diagnosis:
  "\<not> (contains ''DIAGNOSIS'' (upper ''REGISTRY ID'') \<or> contains ''CONDITION'' (upper ''REGISTRY ID''))"
  by code_simp

lemma key_kept_process_age_column: "key_kept (process_age_column P)"
proof (intro key_keptI)
  fix t
  show "column (process_age_column P t) ''REGISTRY ID'' = column t ''REGISTRY ID''"
  proof (cases "find_age_column (cols t)")
    case None
    then show ?thesis by (simp add: process_age_column_def)
  next
    case (Some c)
    have c: "c \<noteq> ''REGISTRY ID''" using key_not_age [OF Some] .
    have 2: "key_kept (\<lambda>t. map_column c age_range_check (map_column c (coerce_numeric P) t))"
      by (rule key_kept_comp [OF key_kept_map_column [OF c] key_kept_map_column [OF c]])
    have 1: "key_kept (\<lambda>t. rename c ''AGE'' (map_column c age_range_check (map_column c (coerce_numeric P) t)))"
      by (rule key_kept_comp [OF key_kept_rename [OF c] 2]) simp
    show ?thesis
      using Some key_kept_column [OF 1, of t] key_kept_column [OF 2, of t]
      by (cases "c = ''AGE''") (simp_all add: process_age_column_def Let_def)
  qed
  show "length (rows (process_age_column P t)) = length (rows t)"
    by (simp add: process_age_column_def Let_def split: option.splits)
qed

lemma key_kept_process_gender_column: "key_kept (process_gender_column P)"
proof (intro key_keptI)
  fix t
  let ?Q = "\<lambda>col. any_keyword_in [''GENDER'', ''SEX''] (upper col)"
  show "column (process_gender_column P t) ''REGISTRY ID'' = column t ''REGISTRY ID''"
  proof (cases "filter ?Q (cols t)")
    case Nil
    then show ?thesis by (simp add: process_gender_column_def)
  next
    case (Cons g rest)
    then have "g \<in> set (filter ?Q (cols t))" by simp
    then have "?Q g" by simp
    then have g: "g \<noteq> ''REGISTRY ID''" using key_not_gender by auto
    have 2: "key_kept (\<lambda>t. map_column g gender_map (map_column g (gender_text P) t))"
      by (rule key_kept_comp [OF key_kept_map_column [OF g] key_kept_map_column [OF g]])
    have 1: "key_kept (\<lambda>t. rename g ''GENDER'' (map_column g gender_map (map_column g (gender_text P) t)))"
      by (rule key_kept_comp [OF key_kept_rename [OF g] 2]) simp
    show ?thesis
      using Cons key_kept_column [OF 1, of t] key_kept_column [OF 2, of t]
      by (cases "g = ''GENDER''") (simp_all add: process_gender_column_def Let_def)
  qed
  show "length (rows (process_gender_column P t)) = length (rows t)"
    by (simp add: process_gender_column_def Let_def split: list.splits)
qed


lemma key_kept_date_step:
  "c \<noteq> ''REGISTRY ID'' \<Longrightarrow>
   key_kept (\<lambda>d. case to_datetime P (column d c) of None \<Rightarrow> d | Some f \<Rightarrow> map_column c f d)"
  by (intro key_keptI) (simp_all add: column_map_column_other split: option.splits)

lemma key_kept_process_date_columns: "key_kept (process_date_columns P)"
proof -
  have "key_kept (fold (\<lambda>col d. case to_datetime P (column d col) of
                                   None \<Rightarrow> d
                                 | Some f \<Rightarrow> map_column col f d)
           (filter (\<lambda>col. any_keyword_in date_keywords (upper col)) cs))" for cs
    using key_not_date by (intro key_kept_fold key_kept_date_step) auto
  then show ?thesis
    by (simp add: key_kept_def process_date_columns_def)
qed

lemma key_kept_process_diagnosis_columns: "key_kept (process_diagnosis_columns P)"
proof -
  have step: "key_kept (\<lambda>d. map_column c (\<lambda>c. if c = StrV ''NAN'' then Null else c)
                 (map_column c (\<lambda>c. StrV (upper (strip (py_str P c)))) d))"
    if "c \<noteq> ''REGISTRY ID''" for c
    by (rule key_kept_comp [OF key_kept_map_column [OF that] key_kept_map_column [OF that]])
  have "key_kept (fold (\<lambda>col d. map_column col (\<lambda>c. if c = StrV ''NAN'' then Null else c)
                 (map_column col (\<lambda>c. StrV (upper (strip (py_str P c)))) d))
           (filter (\<lambda>col. contains ''DIAGNOSIS'' (upper col) \<or> contains ''CONDITION'' (upper col)) cs))"
    for cs
    using key_not_diagnosis by (intro key_kept_fold step) auto
  then show ?thesis
    by (simp add: key_kept_def process_diagnosis_columns_def)
qed

lemma wf_table_dropna_subset: "wf_table t \<Longrightarrow> wf_table (dropna_subset cs t)"
  by (auto simp: wf_table_def dropna_subset_def list_all_iff)

lemma column_dropna_key:
  "column (dropna_subset [c] t) c = filter (\<lambda>v. v \<noteq> Null) (column t c)"
  by (cases "col_index c (cols t)") (simp_all add: column_def dropna_subset_def filter_map comp_def)

lemma length_column: "c \<in> set (cols t) \<Longrightarrow> length (column t c) = length (rows t)"
  using col_index_Some_ex [of c "cols t"] by (auto simp: column_def)

lemma identifier_as_text_column:
  assumes "wf_table df"
  shows "column (identifier_as_text P df) ''REGISTRY ID''
           = map (\<lambda>c. StrV (py_str P c)) (filter (\<lambda>c. c \<noteq> Null) (column df ''REGISTRY ID''))"
  using assms
  by (simp add: identifier_as_text_def column_map_column_same wf_table_dropna_subset column_dropna_key)

lemma identifier_as_text_length:
  assumes "''REGISTRY ID'' \<in> set (cols df)"
  shows "length (rows (identifier_as_text P df))
           = length (filter (\<lambda>c. c \<noteq> Null) (column df ''REGISTRY ID''))"
proof -
  have "''REGISTRY ID'' \<in> set (cols (dropna_subset [''REGISTRY ID''] df))"
    using assms by (simp add: dropna_subset_def)
  from length_column [OF this] show ?thesis
    by (simp add: identifier_as_text_def column_dropna_key)
qed

lemma py_str_one:
  "py_str P (IntV 1) = ''1'' \<and> py_str P (StrV ''1'') = ''1'' \<and> py_str P (FloatV 1) = ''1.0''"
  by code_simp

lemma left_join_rows_match:
  assumes "l \<in> set lrows" and "m \<in> set rrows" and "cell_at m kr = cell_at l kl"
  shows "l @ drop_at kr m \<in> set (left_join_rows kl kr n lrows rrows)"
proof -
  let ?ms = "filter (\<lambda>r. cell_at r kr = cell_at l kl) rrows"
  have m: "m \<in> set ?ms" using assms(2,3) by simp
  then obtain x xs where ms: "?ms = x # xs"
    by (cases ?ms) auto
  have "l @ drop_at kr m \<in> set (map (\<lambda>r. l @ drop_at kr r) ?ms)"
    using m by (intro imageI [of m "set ?ms" "\<lambda>r. l @ drop_at kr r", unfolded set_map [symmetric]])
  then have "l @ drop_at kr m \<in> set (case ?ms of
                 [] \<Rightarrow> [l @ replicate n Null]
               | a # as \<Rightarrow> map (\<lambda>r. l @ drop_at kr r) (a # as))"
    using ms by simp
  then show ?thesis
    using assms(1) unfolding left_join_rows_def set_concat set_map by blast
qed

lemma left_join_rows_no_match:
  assumes "l \<in> set lrows" and "\<forall>m \<in> set rrows. cell_at m kr \<noteq> cell_at l kl"
  shows "l @ replicate n Null \<in> set (left_join_rows kl kr n lrows rrows)"
proof -
  have "filter (\<lambda>r. cell_at r kr = cell_at l kl) rrows = []"
    using assms(2) by (simp add: filter_empty_conv)
  then have "l @ replicate n Null \<in> set (case filter (\<lambda>r. cell_at r kr = cell_at l kl) rrows of
                 [] \<Rightarrow> [l @ replicate n Null]
               | a # as \<Rightarrow> map (\<lambda>r. l @ drop_at kr r) (a # as))"
    by simp
  then show ?thesis
    using assms(1) unfolding left_join_rows_def set_concat set_map by blast
qed

lemma validated_key_cells:
  assumes col: "column t' ''REGISTRY ID''
                  = map (\<lambda>c. StrV (py_str P c)) (filter (\<lambda>c. c \<noteq> Null) (column t ''REGISTRY ID''))"
    and k: "col_index ''REGISTRY ID'' (cols t') = Some k"
    and r: "r \<in> set (rows t')"
  shows "\<exists>a \<in> set (column t ''REGISTRY ID''). a \<noteq> Null \<and> cell_at r k = StrV (py_str P a)"
proof -
  have "cell_at r k \<in> set (column t' ''REGISTRY ID'')"
    using r by (simp add: column_key [OF k])
  then show ?thesis
    unfolding col by auto
qed

lemma validated_key_texts:
  assumes col: "column t' ''REGISTRY ID''
                  = map (\<lambda>c. StrV (py_str P c)) (filter (\<lambda>c. c \<noteq> Null) (column t ''REGISTRY ID''))"
    and k: "col_index ''REGISTRY ID'' (cols t') = Some k"
    and a: "a \<in> set (column t ''REGISTRY ID'')" "a \<noteq> Null"
  shows "\<exists>r \<in> set (rows t'). cell_at r k = StrV (py_str P a)"
proof -
  have "StrV (py_str P a) \<in> set (column t' ''REGISTRY ID'')"
    unfolding col using a by auto
  then show ?thesis
    by (auto simp: column_key [OF k])
qed

lemma validate_patient_data_key:
  assumes "wf_table df" and "validate_patient_data P df = Inr t"
  shows "column t ''REGISTRY ID''
           = map (\<lambda>c. StrV (py_str P c)) (filter (\<lambda>c. c \<noteq> Null) (column df ''REGISTRY ID''))"
  using assms
  by (auto simp: validate_patient_data_def identifier_as_text_column split: if_splits
      simp: key_kept_process_age_column [THEN key_kept_column]
        key_kept_process_gender_column [THEN key_kept_column]
        key_kept_process_date_columns [THEN key_kept_column])

lemma validate_diagnosis_data_key:
  assumes "wf_table df" and "validate_diagnosis_data P df = Inr t"
  shows "column t ''REGISTRY ID''
           = map (\<lambda>c. StrV (py_str P c)) (filter (\<lambda>c. c \<noteq> Null) (column df ''REGISTRY ID''))"
  using assms
  by (auto simp: validate_diagnosis_data_def identifier_as_text_column split: if_splits
      simp: key_kept_process_diagnosis_columns [THEN key_kept_column]
        key_kept_process_date_columns [THEN key_kept_column])

lemma join_by_identifier_text:
  assumes wfp: "wf_table p" and wfd: "wf_table d"
    and vp: "validate_patient_data P p = Inr p'"
    and vd: "validate_diagnosis_data P d = Inr d'"
    and md: "merge_data p' d' = Inr (merged, report)"
  shows "\<exists>kl kr.
       col_index ''REGISTRY ID'' (cols d') = Some kl
     \<and> col_index ''REGISTRY ID'' (cols p') = Some kr
     \<and> (\<forall>r \<in> set (rows merged).
           \<exists>l \<in> set (rows d'). \<exists>a \<in> set (column d ''REGISTRY ID'').
             a \<noteq> Null \<and> cell_at l kl = StrV (py_str P a)
             \<and> ((r = l @ replicate (length (cols p') - 1) Null
                  \<and> (\<forall>b \<in> set (column p ''REGISTRY ID''). b \<noteq> Null \<longrightarrow> py_str P b \<noteq> py_str P a))
                \<or> (\<exists>m \<in> set (rows p'). \<exists>b \<in> set (column p ''REGISTRY ID'').
                      b \<noteq> Null \<and> cell_at m kr = StrV (py_str P b)
                      \<and> py_str P b = py_str P a \<and> r = l @ drop_at kr m)))
     \<and> (\<forall>l \<in> set (rows d'). \<forall>m \<in> set (rows p'). \<forall>s.
           cell_at l kl = StrV s \<and> cell_at m kr = StrV s \<longrightarrow>
           l @ drop_at kr m \<in> set (rows merged))
     \<and> (\<forall>l \<in> set (rows d'). \<forall>a.
           cell_at l kl = StrV (py_str P a)
           \<and> (\<forall>b \<in> set (column p ''REGISTRY ID''). b \<noteq> Null \<longrightarrow> py_str P b \<noteq> py_str P a) \<longrightarrow>
           l @ replicate (length (cols p') - 1) Null \<in> set (rows merged))"
proof -
  let ?n = "length (cols p') - 1"
  from merge_data_Inr_merged [OF md] obtain kl kr
    where kl: "col_index ''REGISTRY ID'' (cols d') = Some kl"
      and kr: "col_index ''REGISTRY ID'' (cols p') = Some kr"
      and rm: "rows merged = left_join_rows kl kr ?n (rows d') (rows p')"
    by (auto simp: merge_tables_Some_iff)
  note pk = validate_patient_data_key [OF wfp vp]
  note dk = validate_diagnosis_data_key [OF wfd vd]
  have sound: "\<exists>l \<in> set (rows d'). \<exists>a \<in> set (column d ''REGISTRY ID'').
             a \<noteq> Null \<and> cell_at l kl = StrV (py_str P a)
             \<and> ((r = l @ replicate ?n Null
                  \<and> (\<forall>b \<in> set (column p ''REGISTRY ID''). b \<noteq> Null \<longrightarrow> py_str P b \<noteq> py_str P a))
                \<or> (\<exists>m \<in> set (rows p'). \<exists>b \<in> set (column p ''REGISTRY ID'').
                      b \<noteq> Null \<and> cell_at m kr = StrV (py_str P b)
                      \<and> py_str P b = py_str P a \<and> r = l @ drop_at kr m))"
    if r: "r \<in> set (rows merged)" for r
  proof -
    from r rm left_join_rows_mem [of r kl kr ?n "rows d'" "rows p'"]
    obtain l where l: "l \<in> set (rows d')"
      and cases: "(cell_at l kl \<notin> (\<lambda>m. cell_at m kr) ` set (rows p') \<and> r = l @ replicate ?n Null)
                  \<or> (\<exists>m \<in> set (rows p'). cell_at m kr = cell_at l kl \<and> r = l @ drop_at kr m)"
      by auto
    from validated_key_cells [OF dk kl l] obtain a
      where a: "a \<in> set (column d ''REGISTRY ID'')" "a \<noteq> Null" "cell_at l kl = StrV (py_str P a)"
      by blast
    from cases show ?thesis
    proof
      assume c: "cell_at l kl \<notin> (\<lambda>m. cell_at m kr) ` set (rows p') \<and> r = l @ replicate ?n Null"
      have "py_str P b \<noteq> py_str P a"
        if b: "b \<in> set (column p ''REGISTRY ID'')" "b \<noteq> Null" for b
      proof
        assume eq: "py_str P b = py_str P a"
        from validated_key_texts [OF pk kr b] obtain m
          where "m \<in> set (rows p')" "cell_at m kr = StrV (py_str P b)"
          by blast
        then have "cell_at l kl \<in> (\<lambda>m. cell_at m kr) ` set (rows p')"
          using a(3) eq by (metis image_eqI)
        then show False using c by simp
      qed
      then show ?thesis using l a c by blast
    next
      assume "\<exists>m \<in> set (rows p'). cell_at m kr = cell_at l kl \<and> r = l @ drop_at kr m"
      then obtain m where m: "m \<in> set (rows p')" "cell_at m kr = cell_at l kl" "r = l @ drop_at kr m"
        by blast
      from validated_key_cells [OF pk kr m(1)] obtain b
        where b: "b \<in> set (column p ''REGISTRY ID'')" "b \<noteq> Null" "cell_at m kr = StrV (py_str P b)"
        by blast
      have "py_str P b = py_str P a"
        using a(3) b(3) m(2) by simp
      then show ?thesis using l a m b by blast
    qed
  qed
  have match: "l @ drop_at kr m \<in> set (rows merged)"
    if "l \<in> set (rows d')" "m \<in> set (rows p')" "cell_at l kl = StrV s \<and> cell_at m kr = StrV s"
    for l m s
    unfolding rm using that by (intro left_join_rows_match) simp_all
  have no_match: "l @ replicate ?n Null \<in> set (rows merged)"
    if l: "l \<in> set (rows d')"
      and h: "cell_at l kl = StrV (py_str P a)
           \<and> (\<forall>b \<in> set (column p ''REGISTRY ID''). b \<noteq> Null \<longrightarrow> py_str P b \<noteq> py_str P a)"
    for l a
  proof -
    have "cell_at m kr \<noteq> cell_at l kl" if m: "m \<in> set (rows p')" for m
    proof -
      from validated_key_cells [OF pk kr m] obtain b
        where "b \<in> set (column p ''REGISTRY ID'')" "b \<noteq> Null" "cell_at m kr = StrV (py_str P b)"
        by blast
      then show ?thesis using h by auto
    qed
    then show ?thesis
      unfolding rm using l by (intro left_join_rows_no_match) simp_all
  qed
  show ?thesis
    using kl kr sound match no_match by blast
qed

text \<open>
  C10. For a table with distinct column names that has the identifier column, the
  validation of the patient table and of the diagnosis table both succeed, whatever
  the identifier values are; the identifier column of the result is the text of each
  identifier that is not null, in order, so the rows with a null identifier are gone
  and nothing else is; and the result has as many rows as there are identifiers that
  are not null. The integer 1 and the text "1" have the same text, the float 1.0 has
  the text "1.0", which differs from it. The join of the two validated tables matches
  by equality of these texts: every merged row is a validated diagnosis row, whose
  identifier cell is the text of an identifier of the diagnosis table, extended either
  by nulls, when no identifier of the patient table has that text, or by a validated
  patient row whose identifier has that text; every pair of a diagnosis row and a
  patient row with the same identifier text gives a merged row, and every diagnosis
  row whose identifier text no patient identifier has gives a merged row with nulls.
\<close>

theorem identifier_validation:
  "(wf_table df \<and> ''REGISTRY ID'' \<in> set (cols df) \<longrightarrow>
      (\<exists>t. validate_patient_data P df = Inr t
         \<and> column t ''REGISTRY ID''
             = map (\<lambda>c. StrV (py_str P c)) (filter (\<lambda>c. c \<noteq> Null) (column df ''REGISTRY ID''))
         \<and> length (rows t) = length (filter (\<lambda>c. c \<noteq> Null) (column df ''REGISTRY ID''))))
   \<and> (wf_table df \<and> ''REGISTRY ID'' \<in> set (cols df) \<longrightarrow>
      (\<exists>t. validate_diagnosis_data P df = Inr t
         \<and> column t ''REGISTRY ID''
             = map (\<lambda>c. StrV (py_str P c)) (filter (\<lambda>c. c \<noteq> Null) (column df ''REGISTRY ID''))
         \<and> length (rows t) = length (filter (\<lambda>c. c \<noteq> Null) (column df ''REGISTRY ID''))))
   \<and> py_str P (IntV 1) = py_str P (StrV ''1'')
   \<and> py_str P (FloatV 1) = ''1.0''
   \<and> py_str P (FloatV 1) \<noteq> py_str P (StrV ''1'')
   \<and> (wf_table p \<and> wf_table d
        \<and> validate_patient_data P p = Inr p'
        \<and> validate_diagnosis_data P d = Inr d'
        \<and> merge_data p' d' = Inr (merged, report) \<longrightarrow>
        (\<exists>kl kr.
           col_index ''REGISTRY ID'' (cols d') = Some kl
         \<and> col_index ''REGISTRY ID'' (cols p') = Some kr
         \<and> (\<forall>r \<in> set (rows merged).
               \<exists>l \<in> set (rows d'). \<exists>a \<in> set (column d ''REGISTRY ID'').
                 a \<noteq> Null \<and> cell_at l kl = StrV (py_str P a)
                 \<and> ((r = l @ replicate (length (cols p') - 1) Null
                      \<and> (\<forall>b \<in> set (column p ''REGISTRY ID''). b \<noteq> Null \<longrightarrow> py_str P b \<noteq> py_str P a))
                    \<or> (\<exists>m \<in> set (rows p'). \<exists>b \<in> set (column p ''REGISTRY ID'').
                          b \<noteq> Null \<and> cell_at m kr = StrV (py_str P b)
                          \<and> py_str P b = py_str P a \<and> r = l @ drop_at kr m)))
         \<and> (\<forall>l \<in> set (rows d'). \<forall>m \<in> set (rows p'). \<forall>s.
               cell_at l kl = StrV s \<and> cell_at m kr = StrV s \<longrightarrow>
               l @ drop_at kr m \<in> set (rows merged))
         \<and> (\<forall>l \<in> set (rows d'). \<forall>a.
               cell_at l kl = StrV (py_str P a)
               \<and> (\<forall>b \<in> set (column p ''REGISTRY ID''). b \<noteq> Null \<longrightarrow> py_str P b \<noteq> py_str P a) \<longrightarrow>
               l @ replicate (length (cols p') - 1) Null \<in> set (rows merged))))"
proof (intro conjI impI)
  note kk = key_kept_process_age_column key_kept_process_gender_column
    key_kept_process_date_columns key_kept_process_diagnosis_columns
  show "\<exists>t. validate_patient_data P df = Inr t
         \<and> column t ''REGISTRY ID''
             = map (\<lambda>c. StrV (py_str P c)) (filter (\<lambda>c. c \<noteq> Null) (column df ''REGISTRY ID''))
         \<and> length (rows t) = length (filter (\<lambda>c. c \<noteq> Null) (column df ''REGISTRY ID''))"
    if "wf_table df \<and> ''REGISTRY ID'' \<in> set (cols df)"
    using that
    by (simp add: validate_patient_data_def kk [THEN key_kept_column] kk [THEN key_kept_length]
        identifier_as_text_column identifier_as_text_length)
  show "\<exists>t. validate_diagnosis_data P df = Inr t
         \<and> column t ''REGISTRY ID''
             = map (\<lambda>c. StrV (py_str P c)) (filter (\<lambda>c. c \<noteq> Null) (column df ''REGISTRY ID''))
         \<and> length (rows t) = length (filter (\<lambda>c. c \<noteq> Null) (column df ''REGISTRY ID''))"
    if "wf_table df \<and> ''REGISTRY ID'' \<in> set (cols df)"
    using that
    by (simp add: validate_diagnosis_data_def kk [THEN key_kept_column] kk [THEN key_kept_length]
        identifier_as_text_column identifier_as_text_length)
  show "py_str P (IntV 1) = py_str P (StrV ''1'')"
    using py_str_one [of P] by simp
  show "py_str P (FloatV 1) = ''1.0''"
    using py_str_one [of P] by simp
  show "py_str P (FloatV 1) \<noteq> py_str P (StrV ''1'')"
    using py_str_one [of P] by simp
  show "\<exists>kl kr.
           col_index ''REGISTRY ID'' (cols d') = Some kl
         \<and> col_index ''REGISTRY ID'' (cols p') = Some kr
         \<and> (\<forall>r \<in> set (rows merged).
               \<exists>l \<in> set (rows d'). \<exists>a \<in> set (column d ''REGISTRY ID'').
                 a \<noteq> Null \<and> cell_at l kl = StrV (py_str P a)
                 \<and> ((r = l @ replicate (length (cols p') - 1) Null
                      \<and> (\<forall>b \<in> set (column p ''REGISTRY ID''). b \<noteq> Null \<longrightarrow> py_str P b \<noteq> py_str P a))
                    \<or> (\<exists>m \<in> set (rows p'). \<exists>b \<in> set (column p ''REGISTRY ID'').
                          b \<noteq> Null \<and> cell_at m kr = StrV (py_str P b)
                          \<and> py_str P b = py_str P a \<and> r = l @ drop_at kr m)))
         \<and> (\<forall>l \<in> set (rows d'). \<forall>m \<in> set (rows p'). \<forall>s.
               cell_at l kl = StrV s \<and> cell_at m kr = StrV s \<longrightarrow>
               l @ drop_at kr m \<in> set (rows merged))
         \<and> (\<forall>l \<in> set (rows d'). \<forall>a.
               cell_at l kl = StrV (py_str P a)
               \<and> (\<forall>b \<in> set (column p ''REGISTRY ID''). b \<noteq> Null \<longrightarrow> py_str P b \<noteq> py_str P a) \<longrightarrow>
               l @ replicate (length (cols p') - 1) Null \<in> set (rows merged))"
    if h: "wf_table p \<and> wf_table d
        \<and> validate_patient_data P p = Inr p'
        \<and> validate_diagnosis_data P d = Inr d'
        \<and> merge_data p' d' = Inr (merged, report)"
    by (rule join_by_identifier_text
        [OF h [THEN conjunct1] h [THEN conjunct2, THEN conjunct1]
            h [THEN conjunct2, THEN conjunct2, THEN conjunct1]
            h [THEN conjunct2, THEN conjunct2, THEN conjunct2, THEN conjunct1]
            h [THEN conjunct2, THEN conjunct2, THEN conjunct2, THEN conjunct2]])
qed

theorem identifier_validation_witness:
  "(\<exists>t. validate_patient_data example_pandas float_identifier_patient_example = Inr t
        \<and> column t ''REGISTRY ID'' = [StrV ''1.0'', StrV ''2.0'']
        \<and> length (rows t) = 2)
   \<and> (\<exists>t. validate_diagnosis_data example_pandas identifier_diagnosis_example = Inr t
        \<and> column t ''REGISTRY ID'' = [StrV ''1'', StrV ''1.0'']
        \<and> length (rows t) = 2)
   \<and> (\<exists>kl kr.
           col_index ''REGISTRY ID'' (cols identifier_diagnosis_validated) = Some kl
         \<and> col_index ''REGISTRY ID'' (cols identifier_patient_validated) = Some kr
         \<and> (\<forall>r \<in> set (rows identifier_merged_example).
               \<exists>l \<in> set (rows identifier_diagnosis_validated). \<exists>a \<in> set (column identifier_diagnosis_example ''REGISTRY ID'').
                 a \<noteq> Null \<and> cell_at l kl = StrV (py_str example_pandas a)
                 \<and> ((r = l @ replicate (length (cols identifier_patient_validated) - 1) Null
                      \<and> (\<forall>b \<in> set (column identifier_patient_example ''REGISTRY ID''). b \<noteq> Null \<longrightarrow> py_str example_pandas b \<noteq> py_str example_pandas a))
                    \<or> (\<exists>m \<in> set (rows identifier_patient_validated). \<exists>b \<in> set (column identifier_patient_example ''REGISTRY ID'').
                          b \<noteq> Null \<and> cell_at m kr = StrV (py_str example_pandas b)
                          \<and> py_str example_pandas b = py_str example_pandas a \<and> r = l @ drop_at kr m)))
         \<and> (\<forall>l \<in> set (rows identifier_diagnosis_validated). \<forall>m \<in> set (rows identifier_patient_validated). \<forall>s.
               cell_at l kl = StrV s \<and> cell_at m kr = StrV s \<longrightarrow>
               l @ drop_at kr m \<in> set (rows identifier_merged_example))
         \<and> (\<forall>l \<in> set (rows identifier_diagnosis_validated). \<forall>a.
               cell_at l kl = StrV (py_str example_pandas a)
               \<and> (\<forall>b \<in> set (column identifier_patient_example ''REGISTRY ID''). b \<noteq> Null \<longrightarrow> py_str example_pandas b \<noteq> py_str example_pandas a) \<longrightarrow>
               l @ replicate (length (cols identifier_patient_validated) - 1) Null \<in> set (rows identifier_merged_example)))
   \<and> process_excel_file example_pandas identifier_workbook
       = Inr (identifier_patient_validated, identifier_diagnosis_validated,
              identifier_merged_example)
   \<and> process_excel_file example_pandas float_identifier_workbook
       = Inr (\<lparr>cols = [''REGISTRY ID'', ''AGE''],
               rows = [[StrV ''1.0'', FloatV 30], [StrV ''2.0'', FloatV 40]]\<rparr>,
              \<lparr>cols = [''REGISTRY ID'', ''DIAGNOSIS''],
               rows = [[StrV ''1'', StrV ''FLU''], [StrV ''2'', StrV ''COLD'']]\<rparr>,
              \<lparr>cols = [''REGISTRY ID'', ''DIAGNOSIS'', ''AGE''],
               rows = [[StrV ''1'', StrV ''FLU'', Null], [StrV ''2'', StrV ''COLD'', Null]]\<rparr>)"
proof -
  note A = identifier_validation [where df = float_identifier_patient_example and P = example_pandas]
  note B = identifier_validation [where df = identifier_diagnosis_example and P = example_pandas]
  note J = identifier_validation [where P = example_pandas
      and p = identifier_patient_example and d = identifier_diagnosis_example
      and p' = identifier_patient_validated and d' = identifier_diagnosis_validated
      and merged = identifier_merged_example and report = "(2, 2)"]
  have h1: "wf_table float_identifier_patient_example
            \<and> ''REGISTRY ID'' \<in> set (cols float_identifier_patient_example)"
    by code_simp
  have h2: "wf_table identifier_diagnosis_example
            \<and> ''REGISTRY ID'' \<in> set (cols identifier_diagnosis_example)"
    by code_simp
  have h6: "wf_table identifier_patient_example \<and> wf_table identifier_diagnosis_example
        \<and> validate_patient_data example_pandas identifier_patient_example
            = Inr identifier_patient_validated
        \<and> validate_diagnosis_data example_pandas identifier_diagnosis_example
            = Inr identifier_diagnosis_validated
        \<and> merge_data identifier_patient_validated identifier_diagnosis_validated
            = Inr (identifier_merged_example, 2, 2)"
    by code_simp
  have p: "map (\<lambda>c. StrV (py_str example_pandas c))
             (filter (\<lambda>c. c \<noteq> Null) (column float_identifier_patient_example ''REGISTRY ID''))
           = [StrV ''1.0'', StrV ''2.0'']"
    by code_simp
  have pn: "length (filter (\<lambda>c. c \<noteq> Null)
              (column float_identifier_patient_example ''REGISTRY ID'')) = 2"
    by code_simp
  have d: "map (\<lambda>c. StrV (py_str example_pandas c))
             (filter (\<lambda>c. c \<noteq> Null) (column identifier_diagnosis_example ''REGISTRY ID''))
           = [StrV ''1'', StrV ''1.0'']"
    by code_simp
  have dn: "length (filter (\<lambda>c. c \<noteq> Null) (column identifier_diagnosis_example ''REGISTRY ID'')) = 2"
    by code_simp
  have run: "process_excel_file example_pandas identifier_workbook
       = Inr (identifier_patient_validated, identifier_diagnosis_validated,
              identifier_merged_example)"
    by code_simp
  have run': "process_excel_file example_pandas float_identifier_workbook
       = Inr (\<lparr>cols = [''REGISTRY ID'', ''AGE''],
               rows = [[StrV ''1.0'', FloatV 30], [StrV ''2.0'', FloatV 40]]\<rparr>,
              \<lparr>cols = [''REGISTRY ID'', ''DIAGNOSIS''],
               rows = [[StrV ''1'', StrV ''FLU''], [StrV ''2'', StrV ''COLD'']]\<rparr>,
              \<lparr>cols = [''REGISTRY ID'', ''DIAGNOSIS'', ''AGE''],
               rows = [[StrV ''1'', StrV ''FLU'', Null], [StrV ''2'', StrV ''COLD'', Null]]\<rparr>)"
    by code_simp
  note a = A [THEN conjunct1, THEN mp, OF h1]
  note b = B [THEN conjunct2, THEN conjunct1, THEN mp, OF h2]
  note j = J [THEN conjunct2, THEN conjunct2, THEN conjunct2, THEN conjunct2, THEN conjunct2,
      THEN mp, OF h6]
  show ?thesis
    using a b j run run' unfolding p pn d dn by (intro conjI)
qed

section \<open>Summary report: gender percentages and age statistics\<close>

lemma set_unique [simp]: "set (unique xs) = set xs"
  by (induction xs) auto

lemma distinct_unique [simp]: "distinct (unique xs)"
  by (induction xs) auto

lemma first_valid_find:
  "first_valid cs = (case List.find (\<lambda>c. c \<noteq> Null) cs of None \<Rightarrow> Null | Some c \<Rightarrow> c)"
  by (induction cs) auto

lemma groupby_first_keys:
  "map fst (groupby_first df key c) = unique (filter (\<lambda>k. k \<noteq> Null) (column df key))"
  by (simp add: groupby_first_def comp_def)

lemma groupby_first_entry:
  "(k, v) \<in> set (groupby_first df key c) \<Longrightarrow>
     v = first_valid (map snd (filter (\<lambda>(k', v). k' = k) (zip (column df key) (column df c))))"
  by (auto simp: groupby_first_def)

lemma fold_min_Min: "fold min xs (x::real) = Min (set (x # xs))"
  by (rule Min.set_eq_fold [symmetric])

lemma fold_max_Max: "fold max xs (x::real) = Max (set (x # xs))"
  by (rule Max.set_eq_fold [symmetric])

lemma age_summary_eq:
  "age_summary ages =
     (let xs = List.map_filter number_of ages
      in if xs = [] then NoAges
         else AgeStats (sum_list xs / real (length xs)) (Min (set xs)) (Max (set xs)))"
  by (cases "List.map_filter number_of ages")
     (simp_all add: age_summary_def Let_def fold_min_Min fold_max_Max del: set_simps)

lemma value_counts_count:
  "(v, n) \<in> set (value_counts xs) \<Longrightarrow> v \<noteq> Null \<and> n = length (filter (\<lambda>x. x = v) xs)"
  by (auto simp: value_counts_def)


text \<open>
  C9, as amended. When the patient table has a row, the merged table has the
  identifier, GENDER and AGE columns, and every first age that is not null is a
  number, the report is produced; each gender percentage is the count divided by the
  number of rows of the patient table, times 100, where the count is the number of
  identifiers of the merged table whose first gender that is not null is that gender;
  the age mean, minimum and maximum are taken over the numbers among one age per
  distinct identifier of the merged table that is not null, that age being the first
  age of the identifier's rows that is not null (null when there is none).
\<close>

theorem summary_report_statistics:
  assumes patients: "rows patient_data \<noteq> []"
    and key: "''REGISTRY ID'' \<in> set (cols merged_data)"
    and gender: "''GENDER'' \<in> set (cols merged_data)"
    and age: "''AGE'' \<in> set (cols merged_data)"
    and numeric: "list_all (\<lambda>a. a = Null \<or> number_of a \<noteq> None)
                    (map snd (groupby_first merged_data ''REGISTRY ID'' ''AGE''))"
  shows "\<exists>rep.
     generate_summary_report merged_data patient_data diagnosis_data = Inr rep
     \<and> gender_distribution rep =
         Some (map (\<lambda>(g, n). (g, n, real n / real (length (rows patient_data)) * 100))
                (value_counts (map snd (groupby_first merged_data ''REGISTRY ID'' ''GENDER''))))
     \<and> (\<forall>(g, n) \<in> set (value_counts (map snd (groupby_first merged_data ''REGISTRY ID'' ''GENDER''))).
           n = length (filter (\<lambda>(k, v). v = g) (groupby_first merged_data ''REGISTRY ID'' ''GENDER'')))
     \<and> age_statistics rep =
         (let xs = List.map_filter number_of (map snd (groupby_first merged_data ''REGISTRY ID'' ''AGE''))
          in if xs = [] then NoAges
             else AgeStats (sum_list xs / real (length xs)) (Min (set xs)) (Max (set xs)))
     \<and> map fst (groupby_first merged_data ''REGISTRY ID'' ''AGE'')
         = unique (filter (\<lambda>k. k \<noteq> Null) (column merged_data ''REGISTRY ID''))
     \<and> (\<forall>(k, a) \<in> set (groupby_first merged_data ''REGISTRY ID'' ''AGE'').
           a = (case List.find (\<lambda>c. c \<noteq> Null)
                       (map snd (filter (\<lambda>(k', v). k' = k)
                          (zip (column merged_data ''REGISTRY ID'') (column merged_data ''AGE'')))) of
                  None \<Rightarrow> Null
                | Some c \<Rightarrow> c))"
proof -
  let ?ages = "map snd (groupby_first merged_data ''REGISTRY ID'' ''AGE'')"
  let ?genders = "map snd (groupby_first merged_data ''REGISTRY ID'' ''GENDER'')"
  have no_type_error: "\<not> list_ex (\<lambda>a. a \<noteq> Null \<and> number_of a = None) ?ages"
    using numeric by (auto simp: list_all_iff list_ex_iff)
  define rep where "rep =
     \<lparr>total_patients = length (rows patient_data),
      total_diagnoses = length (rows diagnosis_data),
      merged_records = length (rows merged_data),
      average_diagnoses = real (length (rows diagnosis_data)) / real (length (rows patient_data)),
      gender_distribution =
        Some (map (\<lambda>(g, n). (g, n, real n / real (length (rows patient_data)) * 100))
               (value_counts ?genders)),
      age_statistics = age_summary ?ages\<rparr>"
  have run: "generate_summary_report merged_data patient_data diagnosis_data = Inr rep"
    using patients key gender age no_type_error
    by (simp add: generate_summary_report_def Let_def rep_def)
  have counts: "n = length (filter (\<lambda>(k, v). v = g) (groupby_first merged_data ''REGISTRY ID'' ''GENDER''))"
    if "(g, n) \<in> set (value_counts ?genders)" for g n
  proof -
    have "n = length (filter (\<lambda>x. x = g) ?genders)"
      using value_counts_count [OF that] by simp
    also have "\<dots> = length (filter (\<lambda>(k, v). v = g) (groupby_first merged_data ''REGISTRY ID'' ''GENDER''))"
      by (simp add: filter_map comp_def case_prod_unfold)
    finally show ?thesis .
  qed
  have entry: "a = (case List.find (\<lambda>c. c \<noteq> Null)
                       (map snd (filter (\<lambda>(k', v). k' = k)
                          (zip (column merged_data ''REGISTRY ID'') (column merged_data ''AGE'')))) of
                  None \<Rightarrow> Null
                | Some c \<Rightarrow> c)"
    if "(k, a) \<in> set (groupby_first merged_data ''REGISTRY ID'' ''AGE'')" for k a
    using groupby_first_entry [OF that] by (simp add: first_valid_find)
  show ?thesis
  proof (intro exI [of _ rep] conjI)
    show "generate_summary_report merged_data patient_data diagnosis_data = Inr rep"
      by (rule run)
    show "gender_distribution rep =
         Some (map (\<lambda>(g, n). (g, n, real n / real (length (rows patient_data)) * 100))
                (value_counts ?genders))"
      by (simp add: rep_def)
    show "\<forall>(g, n) \<in> set (value_counts ?genders).
           n = length (filter (\<lambda>(k, v). v = g) (groupby_first merged_data ''REGISTRY ID'' ''GENDER''))"
      using counts by blast
    show "age_statistics rep =
         (let xs = List.map_filter number_of ?ages
          in if xs = [] then NoAges
             else AgeStats (sum_list xs / real (length xs)) (Min (set xs)) (Max (set xs)))"
      by (simp add: rep_def age_summary_eq)
    show "map fst (groupby_first merged_data ''REGISTRY ID'' ''AGE'')
         = unique (filter (\<lambda>k. k \<noteq> Null) (column merged_data ''REGISTRY ID''))"
      by (rule groupby_first_keys)
    show "\<forall>(k, a) \<in> set (groupby_first merged_data ''REGISTRY ID'' ''AGE'').
           a = (case List.find (\<lambda>c. c \<noteq> Null)
                       (map snd (filter (\<lambda>(k', v). k' = k)
                          (zip (column merged_data ''REGISTRY ID'') (column merged_data ''AGE'')))) of
                  None \<Rightarrow> Null
                | Some c \<Rightarrow> c)"
      using entry by blast
  qed
qed

theorem summary_report_statistics_witness:
  "\<exists>rep.
     generate_summary_report merged_example patient_example diagnosis_example = Inr rep
     \<and> gender_distribution rep = Some [(StrV ''MALE'', 1, 100)]
     \<and> age_statistics rep = AgeStats 34 34 34"
proof -
  have h1: "rows patient_example \<noteq> []"
    by code_simp
  have h2: "''REGISTRY ID'' \<in> set (cols merged_example)"
    by code_simp
  have h3: "''GENDER'' \<in> set (cols merged_example)"
    by code_simp
  have h4: "''AGE'' \<in> set (cols merged_example)"
    by code_simp
  have h5: "list_all (\<lambda>a. a = Null \<or> number_of a \<noteq> None)
              (map snd (groupby_first merged_example ''REGISTRY ID'' ''AGE''))"
    by code_simp
  have g: "Some (map (\<lambda>(g, n). (g, n, real n / real (length (rows patient_example)) * 100))
                (value_counts (map snd (groupby_first merged_example ''REGISTRY ID'' ''GENDER''))))
           = Some [(StrV ''MALE'', 1, 100)]"
    by code_simp
  have a: "(let xs = List.map_filter number_of (map snd (groupby_first merged_example ''REGISTRY ID'' ''AGE''))
          in if xs = [] then NoAges
             else AgeStats (sum_list xs / real (length xs)) (Min (set xs)) (Max (set xs)))
           = AgeStats 34 34 34"
    by code_simp
  from summary_report_statistics [OF h1 h2 h3 h4 h5, of diagnosis_example]
  obtain rep where
    "generate_summary_report merged_example patient_example diagnosis_example = Inr rep"
    "gender_distribution rep =
         Some (map (\<lambda>(g, n). (g, n, real n / real (length (rows patient_example)) * 100))
                (value_counts (map snd (groupby_first merged_example ''REGISTRY ID'' ''GENDER''))))"
    "age_statistics rep =
         (let xs = List.map_filter number_of (map snd (groupby_first merged_example ''REGISTRY ID'' ''AGE''))
          in if xs = [] then NoAges
             else AgeStats (sum_list xs / real (length xs)) (Min (set xs)) (Max (set xs)))"
    by blast
  then show ?thesis
    unfolding g a by blast
qed

text \<open>
  C9, as stated, fails: the workbook with two patient rows for A1 is processed without
  error; the one distinct patient is MALE and the report gives 50 percent, the count
  over the two rows of the patient table; and the age of A1 is 40, from its second
  row, the first being null.
\<close>

theorem summary_report_statistics_counterexample:
  "process_excel_file example_pandas report_workbook
     = Inr (report_patient_example, diagnosis_example, report_merged_example)
   \<and> generate_summary_report report_merged_example report_patient_example diagnosis_example
     = Inr \<lparr>total_patients = 2, total_diagnoses = 2, merged_records = 3, average_diagnoses = 1,
            gender_distribution = Some [(StrV ''MALE'', 1, 50)],
            age_statistics = AgeStats 40 40 40\<rparr>
   \<and> length (unique (column report_patient_example ''REGISTRY ID'')) = 1
   \<and> (50::real) \<noteq> real 1 / real (length (unique (column report_patient_example ''REGISTRY ID''))) * 100
   \<and> map snd (filter (\<lambda>(k, v). k = StrV ''A1'')
        (zip (column report_merged_example ''REGISTRY ID'') (column report_merged_example ''AGE'')))
       = [Null, FloatV 40]"
  by code_simp

end
